theory Spec2Isabelle
  imports Main "HOL-Library.Sublist" "HOL-Library.AList" "HOL-Library.Monad_Syntax"
begin

section \<open>Python values\<close>

text \<open>
  The event handed to the Lambda function is a decoded JSON document, and every value the
  builder handles is either such a value or a string built from one. Strings are sequences
  of characters with code points below 256, one \<^typ>\<open>char\<close> per Python character. A Python
  dict is an association list in insertion order; its keys are distinct, and a lookup reads
  the first binding of the key. Floating-point numbers are left out of the model.
\<close>

datatype json =
    JNull
  | JBool bool
  | JInt int
  | JStr string
  | JList "json list"
  | JDict "(string \<times> json) list"

type_synonym dict = "(string \<times> json) list"

text \<open>The exceptions that the modelled code can raise.\<close>

datatype py_error =
    AttributeError
  | TypeError
  | IndexError
  | ValueError
  | OverflowError
  | RuntimeError string
  | Propagated string

type_synonym 'a result = "py_error + 'a"

text \<open>Sequencing of two steps, the second of which runs only if the first did not raise.\<close>

definition and_then :: "'a result \<Rightarrow> ('a \<Rightarrow> 'b result) \<Rightarrow> 'b result" where
  "and_then m f = (case m of Inl e \<Rightarrow> Inl e | Inr v \<Rightarrow> f v)"

text \<open>Truth value of an object, as tested by \<^verbatim>\<open>not x\<close>, \<^verbatim>\<open>x or y\<close> and \<^verbatim>\<open>if x\<close>.\<close>

fun truthy :: "json \<Rightarrow> bool" where
  "truthy JNull = False"
| "truthy (JBool b) = b"
| "truthy (JInt i) = (i \<noteq> 0)"
| "truthy (JStr s) = (s \<noteq> [])"
| "truthy (JList xs) = (xs \<noteq> [])"
| "truthy (JDict kvs) = (kvs \<noteq> [])"

text \<open>\<^verbatim>\<open>a or b\<close>\<close>

definition py_or :: "json \<Rightarrow> json \<Rightarrow> json" where
  "py_or a b = (if truthy a then a else b)"

text \<open>\<^verbatim>\<open>d.get(k, dflt)\<close> on a dict; \<^verbatim>\<open>d.get(k)\<close> is \<^verbatim>\<open>d.get(k, None)\<close>.\<close>

definition dict_get :: "dict \<Rightarrow> string \<Rightarrow> json \<Rightarrow> json" where
  "dict_get d k dflt = (case map_of d k of None \<Rightarrow> dflt | Some v \<Rightarrow> v)"

text \<open>\<^verbatim>\<open>x.get(k, dflt)\<close> on any object: only a dict has the method.\<close>

definition py_get :: "json \<Rightarrow> string \<Rightarrow> json \<Rightarrow> json result" where
  "py_get x k dflt = (case x of JDict d \<Rightarrow> Inr (dict_get d k dflt) | _ \<Rightarrow> Inl AttributeError)"

text \<open>\<^verbatim>\<open>needle in hay\<close> on two strings: \<open>needle\<close> occurs in \<open>hay\<close> as a substring.\<close>

fun contains :: "string \<Rightarrow> string \<Rightarrow> bool" where
  "contains needle [] = (needle = [])"
| "contains needle (c # cs) = (prefix needle (c # cs) \<or> contains needle cs)"

text \<open>
  \<^verbatim>\<open>needle in x\<close> for a string \<open>needle\<close> and any object \<open>x\<close>: substring test on a string,
  membership in a list, key test on a dict, \<^verbatim>\<open>TypeError\<close> on \<^verbatim>\<open>None\<close>, a bool or a number.
\<close>

definition py_in :: "string \<Rightarrow> json \<Rightarrow> bool result" where
  "py_in needle x =
     (case x of
        JStr s \<Rightarrow> Inr (contains needle s)
      | JList xs \<Rightarrow> Inr (JStr needle \<in> set xs)
      | JDict d \<Rightarrow> Inr (needle \<in> fst ` set d)
      | _ \<Rightarrow> Inl TypeError)"

text \<open>\<^verbatim>\<open>s.split(c)\<close> for a separator of one character: one more part than separators.\<close>

fun split_on :: "char \<Rightarrow> string \<Rightarrow> string list" where
  "split_on c [] = [[]]"
| "split_on c (x # xs) =
     (if x = c then [] # split_on c xs
      else (case split_on c xs of [] \<Rightarrow> [[x]] | p # ps \<Rightarrow> (x # p) # ps))"

definition py_split :: "json \<Rightarrow> char \<Rightarrow> string list result" where
  "py_split x c = (case x of JStr s \<Rightarrow> Inr (split_on c s) | _ \<Rightarrow> Inl AttributeError)"

text \<open>\<^verbatim>\<open>xs[-1]\<close>\<close>

definition py_last :: "'a list \<Rightarrow> 'a result" where
  "py_last xs = (if xs = [] then Inl IndexError else Inr (last xs))"

section \<open>User-identity summarizer\<close>

text \<open>
  \<^verbatim>\<open>build_user_summary\<close> (identical in \<^verbatim>\<open>main.py\<close> and \<^verbatim>\<open>lambda_function.py\<close>): the short user
  string and the dict of extra user fields.
\<close>

definition build_user_summary :: "json \<Rightarrow> (json \<times> dict) result" where
  "build_user_summary user_identity =
     (case user_identity of
        JDict ui \<Rightarrow>
          (let utype = dict_get ui ''type'' JNull;
               account_id = dict_get ui ''accountId'' JNull;
               principal = dict_get ui ''principalId'' JNull;
               arn = py_or (dict_get ui ''arn'' JNull) (JStr '''');
               username = dict_get ui ''userName'' JNull;
               extras = [(''Account'', py_or account_id (JStr ''-'')),
                         (''Principal'', py_or principal (JStr ''-''))]
           in if utype = JStr ''IAMUser'' then
                Inr (py_or username (py_or principal (JStr ''iam-user'')),
                     AList.update ''UserType'' (JStr ''IAMUser'') extras)
              else if utype = JStr ''AssumedRole'' then
                and_then (py_in ''/'' arn) (\<lambda>has_slash.
                and_then
                  (if has_slash
                   then and_then (py_split arn (CHR ''/'')) (\<lambda>parts.
                        and_then (py_last parts) (\<lambda>seg. Inr (JStr seg)))
                   else Inr (py_or username (py_or principal (JStr ''assumed-role''))))
                  (\<lambda>session_name.
                and_then (py_get user_identity ''sessionContext'' (JDict [])) (\<lambda>session_context.
                and_then (py_get session_context ''sessionIssuer'' (JDict [])) (\<lambda>session_issuer.
                and_then (py_get session_issuer ''arn'' JNull) (\<lambda>issuer_arn.
                let issuer = py_or issuer_arn (JStr ''-'')
                in Inr (session_name,
                        AList.update ''RoleIssuer'' issuer
                          (AList.update ''UserType'' (JStr ''AssumedRole'') extras)))))))
              else if utype = JStr ''Root'' then
                Inr (JStr ''Root'', AList.update ''UserType'' (JStr ''Root'') extras)
              else
                Inr (py_or username (py_or principal (py_or arn (JStr ''unknown''))),
                     AList.update ''UserType'' (py_or utype (JStr ''Unknown'')) extras))
      | _ \<Rightarrow> Inr (JStr ''unknown'', []))"


text \<open>
  Notions used to state the properties of the summarizer: the text after the last
  occurrence of a character, the value found under the nested path
  \<^verbatim>\<open>sessionContext.sessionIssuer.arn\<close>, the two entries every summary of a dict starts
  from, and the shape of an assumed-role identity whose nested documents are objects.
\<close>

definition after_last :: "char \<Rightarrow> string \<Rightarrow> string" where
  "after_last c s = rev (takeWhile (\<lambda>x. x \<noteq> c) (rev s))"

definition nested_issuer_arn :: "dict \<Rightarrow> json option" where
  "nested_issuer_arn ui =
     (case map_of ui ''sessionContext'' of
        Some (JDict sc) \<Rightarrow>
          (case map_of sc ''sessionIssuer'' of
             Some (JDict si) \<Rightarrow> map_of si ''arn''
           | _ \<Rightarrow> None)
      | _ \<Rightarrow> None)"

definition base_extras :: "dict \<Rightarrow> dict" where
  "base_extras ui = [(''Account'', py_or (dict_get ui ''accountId'' JNull) (JStr ''-'')),
                     (''Principal'', py_or (dict_get ui ''principalId'' JNull) (JStr ''-''))]"

definition is_str_or_null :: "json \<Rightarrow> bool" where
  "is_str_or_null x = (case x of JNull \<Rightarrow> True | JStr s \<Rightarrow> True | _ \<Rightarrow> False)"

definition is_dict :: "json \<Rightarrow> bool" where
  "is_dict x = (case x of JDict d \<Rightarrow> True | _ \<Rightarrow> False)"

definition session_context_ok :: "dict \<Rightarrow> bool" where
  "session_context_ok ui =
     (is_str_or_null (dict_get ui ''arn'' JNull) \<and>
      is_dict (dict_get ui ''sessionContext'' (JDict [])) \<and>
      (case dict_get ui ''sessionContext'' (JDict []) of
         JDict sc \<Rightarrow> is_dict (dict_get sc ''sessionIssuer'' (JDict []))
       | _ \<Rightarrow> False))"

section \<open>Timestamps\<close>

text \<open>
  \<^verbatim>\<open>to_iso8601\<close> rests on three library calls: \<^verbatim>\<open>datetime.fromisoformat\<close>,
  \<^verbatim>\<open>datetime.astimezone\<close> and \<^verbatim>\<open>datetime.strftime\<close>. They are modelled as CPython 3.11
  computes them on Linux. The parser works on the UTF-8 encoding of the string and reads a
  zero byte at and beyond its end; a failure (\<^verbatim>\<open>ValueError\<close>) is \<open>None\<close>.
\<close>

definition nth0 :: "string \<Rightarrow> nat \<Rightarrow> char" where
  "nth0 s i = (if i < length s then s ! i else CHR 0x00)"

definition is_digit :: "char \<Rightarrow> bool" where
  "is_digit c = (48 \<le> (of_char c :: nat) \<and> (of_char c :: nat) \<le> 57)"

definition digit_val :: "char \<Rightarrow> nat" where
  "digit_val c = of_char c - 48"

definition digit_char :: "nat \<Rightarrow> char" where
  "digit_char n = ''0123456789'' ! (n mod 10)"

text \<open>The UTF-8 encoding of a string of code points below 256.\<close>

definition utf8 :: "string \<Rightarrow> string" where
  "utf8 s = concat (map (\<lambda>c. if (of_char c :: nat) < 128 then [c]
                             else [char_of (192 + (of_char c :: nat) div 64),
                                   char_of (128 + (of_char c :: nat) mod 64)]) s)"

text \<open>Read exactly \<open>n\<close> decimal digits from the front; the value and the rest.\<close>

fun parse_digits_from :: "nat \<Rightarrow> nat \<Rightarrow> string \<Rightarrow> (nat \<times> string) option" where
  "parse_digits_from acc 0 s = Some (acc, s)"
| "parse_digits_from acc (Suc n) [] = None"
| "parse_digits_from acc (Suc n) (c # cs) =
     (if is_digit c then parse_digits_from (acc * 10 + digit_val c) n cs else None)"

definition parse_digits :: "nat \<Rightarrow> string \<Rightarrow> (nat \<times> string) option" where
  "parse_digits n s = parse_digits_from 0 n s"

text \<open>
  Where the date part ends, decided from the characters at positions 4, 5, 8 and 10 and
  from the length (at least 7).
\<close>

definition find_isoformat_datetime_separator :: "string \<Rightarrow> nat option" where
  "find_isoformat_datetime_separator s =
     (let n = length s in
      if n = 7 then Some 7
      else if nth0 s 4 = CHR ''-'' then
        (if nth0 s 5 = CHR ''W'' then
           (if n < 8 then None
            else if n > 8 \<and> nth0 s 8 = CHR ''-'' then
              (if n = 9 then None
               else if n > 10 \<and> is_digit (nth0 s 10) then Some 8
               else Some 10)
            else Some 8)
         else Some 10)
      else if nth0 s 4 = CHR ''W'' then
        (let idx = 7 + length (takeWhile is_digit (drop 7 s)) in
         if idx < 9 then Some idx
         else if idx mod 2 = 0 then Some 7
         else Some 8)
      else Some 8)"

subsection \<open>The proleptic Gregorian calendar\<close>

definition is_leap :: "int \<Rightarrow> bool" where
  "is_leap year = (year mod 4 = 0 \<and> (year mod 100 \<noteq> 0 \<or> year mod 400 = 0))"

definition DAYS_IN_MONTH :: "int list" where
  "DAYS_IN_MONTH = [0, 31, 28, 31, 30, 31, 30, 31, 31, 30, 31, 30, 31]"

definition DAYS_BEFORE_MONTH :: "int list" where
  "DAYS_BEFORE_MONTH = [0, 0, 31, 59, 90, 120, 151, 181, 212, 243, 273, 304, 334]"

definition days_in_month :: "int \<Rightarrow> int \<Rightarrow> int" where
  "days_in_month year month =
     (if month = 2 \<and> is_leap year then 29 else DAYS_IN_MONTH ! nat month)"

definition days_before_year :: "int \<Rightarrow> int" where
  "days_before_year year =
     (let y = year - 1 in y * 365 + y div 4 - y div 100 + y div 400)"

definition days_before_month :: "int \<Rightarrow> int \<Rightarrow> int" where
  "days_before_month year month =
     DAYS_BEFORE_MONTH ! nat month + (if month > 2 \<and> is_leap year then 1 else 0)"

definition ymd_to_ord :: "int \<Rightarrow> int \<Rightarrow> int \<Rightarrow> int" where
  "ymd_to_ord year month day = days_before_year year + days_before_month year month + day"

definition ord_to_ymd :: "int \<Rightarrow> int \<times> int \<times> int" where
  "ord_to_ymd ordinal =
     (let n = ordinal - 1;
          n400 = n div 146097; n = n mod 146097;
          n100 = n div 36524; n = n mod 36524;
          n4 = n div 1461; n = n mod 1461;
          n1 = n div 365; n = n mod 365;
          year = n400 * 400 + 1 + n100 * 100 + n4 * 4 + n1
      in if n1 = 4 \<or> n100 = 4 then (year - 1, 12, 31)
         else
           (let leapyear = (n1 = 3 \<and> (n4 \<noteq> 24 \<or> n100 = 3));
                month = (n + 50) div 32;
                preceding = DAYS_BEFORE_MONTH ! nat month + (if month > 2 \<and> leapyear then 1 else 0)
            in if preceding > n then
                 (let month' = month - 1;
                      preceding' = preceding
                        - (DAYS_IN_MONTH ! nat month' + (if month' = 2 \<and> leapyear then 1 else 0))
                  in (year, month', n - preceding' + 1))
               else (year, month, n - preceding + 1)))"

definition weekday :: "int \<Rightarrow> int \<Rightarrow> int \<Rightarrow> int" where
  "weekday year month day = (ymd_to_ord year month day + 6) mod 7"

definition iso_week1_monday :: "int \<Rightarrow> int" where
  "iso_week1_monday year =
     (let first_day = ymd_to_ord year 1 1;
          first_weekday = (first_day + 6) mod 7;
          week1_monday = first_day - first_weekday
      in if first_weekday > 3 then week1_monday + 7 else week1_monday)"

definition iso_to_ymd :: "int \<Rightarrow> int \<Rightarrow> int \<Rightarrow> (int \<times> int \<times> int) option" where
  "iso_to_ymd iso_year iso_week iso_day =
     (if (iso_week \<le> 0 \<or> iso_week \<ge> 53) \<and>
         \<not> (iso_week = 53 \<and>
            (weekday iso_year 1 1 = 3 \<or> (weekday iso_year 1 1 = 2 \<and> is_leap iso_year)))
      then None
      else if iso_day \<le> 0 \<or> iso_day \<ge> 8 then None
      else Some (ord_to_ymd (iso_week1_monday iso_year + (iso_week - 1) * 7 + iso_day - 1)))"

subsection \<open>Parsing\<close>

text \<open>
  The date part of the encoded string \<open>s\<close>, with \<open>n\<close> the position of the separator:
  \<^verbatim>\<open>YYYY-MM-DD\<close>, \<^verbatim>\<open>YYYYMMDD\<close>, \<^verbatim>\<open>YYYY-Www[-d]\<close> or \<^verbatim>\<open>YYYYWww[d]\<close>.
\<close>

definition parse_isoformat_date :: "string \<Rightarrow> nat \<Rightarrow> (int \<times> int \<times> int) option" where
  "parse_isoformat_date s n =
     do {
       (year, p) \<leftarrow> parse_digits 4 s;
       let uses_separator = (nth0 p 0 = CHR ''-'');
       let p = (if uses_separator then drop 1 p else p);
       if nth0 p 0 = CHR ''W'' then
         do {
           (iso_week, p) \<leftarrow> parse_digits 2 (drop 1 p);
           if (if uses_separator then 8 else 7) < n then
             (if uses_separator \<and> nth0 p 0 \<noteq> CHR ''-'' then None
              else do {
                (iso_day, p) \<leftarrow> parse_digits 1 (if uses_separator then drop 1 p else p);
                iso_to_ymd (int year) (int iso_week) (int iso_day)
              })
           else iso_to_ymd (int year) (int iso_week) 1
         }
       else
         do {
           (month, p) \<leftarrow> parse_digits 2 p;
           if uses_separator \<and> nth0 p 0 \<noteq> CHR ''-'' then None
           else do {
             (day, p) \<leftarrow> parse_digits 2 (if uses_separator then drop 1 p else p);
             Some (int year, int month, int day)
           }
         }
     }"

text \<open>
  What scanning the hour, minute and second fields of a segment ends in: an error, the
  end of the segment (with the fields read and whether the character read last was not
  the terminating zero), or the position where a fraction starts.
\<close>

datatype hms_scan = Malformed | Whole "nat list" bool | Fraction "nat list" nat

text \<open>
  The loop over the three fields: \<open>i\<close> is the index of the field to read, \<open>pos\<close> the
  position in \<open>s\<close>, which runs from the start of the segment to the end of the string, and
  \<open>n\<close> the length of the segment.
\<close>

function scan_hh_mm_ss :: "nat \<Rightarrow> nat \<Rightarrow> bool \<Rightarrow> nat list \<Rightarrow> string \<Rightarrow> nat \<Rightarrow> hms_scan" where
  "scan_hh_mm_ss i pos has_separator vals s n =
     (if i \<ge> 3 then Fraction vals pos
      else case parse_digits 2 (drop pos s) of
        None \<Rightarrow> Malformed
      | Some (v, _) \<Rightarrow>
          (let vals = vals[i := v];
               c = nth0 s (pos + 2);
               pos = pos + 3;
               has_separator = (if i = 0 then c = CHR '':'' else has_separator)
           in if pos \<ge> n then Whole vals (c \<noteq> CHR 0x00)
              else if has_separator \<and> c = CHR '':'' then scan_hh_mm_ss (i + 1) pos has_separator vals s n
              else if c = CHR ''.'' \<or> c = CHR '','' then Fraction vals pos
              else if \<not> has_separator then scan_hh_mm_ss (i + 1) (pos - 1) has_separator vals s n
              else Malformed))"
  by pat_completeness auto
termination
  by (relation "measure (\<lambda>(i, pos, has_separator, vals, s, n). 3 - i)") auto

definition correction :: "nat list" where
  "correction = [100000, 10000, 1000, 100, 10]"

text \<open>
  \<^verbatim>\<open>HH[:MM[:SS[.ffffff]]]\<close>, with or without colons, in a segment of length \<open>n\<close> at the front
  of \<open>s\<close>: hour, minute, second, microsecond, and whether text is left behind the fields.
\<close>

definition parse_hh_mm_ss_ff :: "string \<Rightarrow> nat \<Rightarrow> (nat \<times> nat \<times> nat \<times> nat \<times> bool) option" where
  "parse_hh_mm_ss_ff s n =
     (case scan_hh_mm_ss 0 0 True [0, 0, 0] s n of
        Malformed \<Rightarrow> None
      | Whole vals more \<Rightarrow> Some (vals ! 0, vals ! 1, vals ! 2, 0, more)
      | Fraction vals pos \<Rightarrow>
          (let len_remains = n - pos;
               to_parse = min len_remains 6
           in case parse_digits to_parse (drop pos s) of
                None \<Rightarrow> None
              | Some (us, _) \<Rightarrow>
                  (let us = (if to_parse < 6 then us * correction ! (to_parse - 1) else us);
                       p = dropWhile is_digit (drop (pos + to_parse) s)
                   in Some (vals ! 0, vals ! 1, vals ! 2, us, nth0 p 0 \<noteq> CHR 0x00))))"

text \<open>The position of the first \<^verbatim>\<open>Z\<close>, \<^verbatim>\<open>+\<close> or \<^verbatim>\<open>-\<close> of the time part, tested at position 0 first.\<close>

function find_tzinfo :: "string \<Rightarrow> nat \<Rightarrow> nat \<Rightarrow> nat" where
  "find_tzinfo s n pos =
     (if nth0 s pos = CHR ''Z'' \<or> nth0 s pos = CHR ''+'' \<or> nth0 s pos = CHR ''-'' then pos
      else if Suc pos < n then find_tzinfo s n (Suc pos)
      else Suc pos)"
  by pat_completeness auto
termination
  by (relation "measure (\<lambda>(s, n, pos). n - pos)") auto

declare scan_hh_mm_ss.simps [simp del]
declare find_tzinfo.simps [simp del]

text \<open>
  The time part: the fields and, if there is one, the offset from UTC in seconds with its
  microseconds.
\<close>

definition parse_isoformat_time ::
  "string \<Rightarrow> nat \<Rightarrow> (nat \<times> nat \<times> nat \<times> nat \<times> (int \<times> int) option) option" where
  "parse_isoformat_time s n =
     (let tzinfo_pos = find_tzinfo s n 0 in
      do {
        (hour, minute, second, microsecond, more) \<leftarrow> parse_hh_mm_ss_ff s tzinfo_pos;
        if tzinfo_pos = n then
          (if more then None else Some (hour, minute, second, microsecond, None))
        else if nth0 s tzinfo_pos = CHR ''Z'' then
          (if nth0 s (tzinfo_pos + 1) \<noteq> CHR 0x00 then None
           else Some (hour, minute, second, microsecond, Some (0, 0)))
        else
          do {
            let tzsign = (if nth0 s tzinfo_pos = CHR ''-'' then - 1 else 1 :: int);
            (tzhour, tzminute, tzsecond, tzmicrosecond, more) \<leftarrow>
              parse_hh_mm_ss_ff (drop (tzinfo_pos + 1) s) (n - tzinfo_pos - 1);
            if more then None
            else Some (hour, minute, second, microsecond,
                       Some (tzsign * (int tzhour * 3600 + int tzminute * 60 + int tzsecond),
                             tzsign * int tzmicrosecond))
          }
      })"

subsection \<open>Dates with a time of day\<close>

text \<open>
  A \<^verbatim>\<open>datetime\<close> object; \<open>utcoffset\<close> is the offset from UTC in microseconds of an aware
  object and \<open>None\<close> for a naive one.
\<close>

record datetime =
  year :: int
  month :: int
  day :: int
  hour :: int
  minute :: int
  second :: int
  microsecond :: int
  utcoffset :: "int option"

text \<open>The constructor, which refuses fields out of range.\<close>

definition new_datetime ::
  "int \<Rightarrow> int \<Rightarrow> int \<Rightarrow> int \<Rightarrow> int \<Rightarrow> int \<Rightarrow> int \<Rightarrow> int option \<Rightarrow> datetime option" where
  "new_datetime y m d hh mm ss us tz =
     (if \<not> (1 \<le> y \<and> y \<le> 9999) then None
      else if \<not> (1 \<le> m \<and> m \<le> 12) then None
      else if \<not> (1 \<le> d \<and> d \<le> days_in_month y m) then None
      else if \<not> (0 \<le> hh \<and> hh \<le> 23) then None
      else if \<not> (0 \<le> mm \<and> mm \<le> 59) then None
      else if \<not> (0 \<le> ss \<and> ss \<le> 59) then None
      else if \<not> (0 \<le> us \<and> us \<le> 999999) then None
      else Some \<lparr>year = y, month = m, day = d, hour = hh, minute = mm, second = ss,
                 microsecond = us, utcoffset = tz\<rparr>)"

text \<open>
  The time zone of a parsed offset: an offset of zero seconds is UTC whatever its
  microseconds, any other offset must lie strictly between minus and plus 24 hours.
\<close>

definition tzinfo_from_isoformat_results :: "(int \<times> int) option \<Rightarrow> int option option" where
  "tzinfo_from_isoformat_results tz =
     (case tz of
        None \<Rightarrow> Some None
      | Some (tzoffset, tz_useconds) \<Rightarrow>
          if tzoffset = 0 then Some (Some 0)
          else (let delta = tzoffset * 1000000 + tz_useconds
                in if - 86400000000 < delta \<and> delta < 86400000000 then Some (Some delta)
                   else None))"

text \<open>\<^verbatim>\<open>datetime.fromisoformat\<close>\<close>

definition fromisoformat :: "string \<Rightarrow> datetime option" where
  "fromisoformat date_string =
     (let s = utf8 date_string; n = length s in
      if n < 7 then None
      else do {
        separator_location \<leftarrow> find_isoformat_datetime_separator s;
        (y, m, d) \<leftarrow> parse_isoformat_date s separator_location;
        (hh, mm, ss, us, tz) \<leftarrow>
          (if n > separator_location then
             (let p = separator_location
                      + (if (of_char (nth0 s separator_location) :: nat) < 128 then 1 else 2)
              in parse_isoformat_time (drop p s) (n - p))
           else Some (0, 0, 0, 0, None));
        tzinfo \<leftarrow> tzinfo_from_isoformat_results tz;
        new_datetime y m d (int hh) (int mm) (int ss) (int us) tzinfo
      })"

text \<open>
  The object \<open>offset\<close> microseconds earlier, in UTC; \<open>None\<close> where the library raises
  \<^verbatim>\<open>OverflowError\<close> because the date leaves the years 1 to 9999.
\<close>

definition minus_offset :: "datetime \<Rightarrow> int \<Rightarrow> datetime option" where
  "minus_offset dt offset =
     (let t = ((ymd_to_ord (year dt) (month dt) (day dt) * 86400
                + hour dt * 3600 + minute dt * 60 + second dt) * 1000000 + microsecond dt) - offset;
          days = t div 86400000000;
          rest = t mod 86400000000;
          secs = rest div 1000000
      in if days < 1 \<or> days > 3652059 then None
         else (case ord_to_ymd days of (y, m, d) \<Rightarrow>
                 new_datetime y m d (secs div 3600) (secs mod 3600 div 60) (secs mod 60)
                   (rest mod 1000000) (Some 0)))"

text \<open>
  \<^verbatim>\<open>dt.astimezone(timezone.utc)\<close>. An object that is in UTC already is returned as it is.
  A naive object is taken as local time: \<open>local_utcoffset\<close> is the offset in seconds that
  the time zone of the process gives to its fields, \<open>None\<close> where the C library cannot tell.
\<close>

definition astimezone_utc ::
  "(int \<times> int \<times> int \<times> int \<times> int \<times> int \<Rightarrow> int option) \<Rightarrow> datetime \<Rightarrow> datetime option" where
  "astimezone_utc local_utcoffset dt =
     (case utcoffset dt of
        None \<Rightarrow>
          (case local_utcoffset (year dt, month dt, day dt, hour dt, minute dt, second dt) of
             None \<Rightarrow> None
           | Some gmtoff \<Rightarrow>
               if - 86400 < gmtoff \<and> gmtoff < 86400 then minus_offset dt (gmtoff * 1000000)
               else None)
      | Some offset \<Rightarrow> if offset = 0 then Some dt else minus_offset dt offset)"

text \<open>Decimal digits of a number, and a number in two digits (\<^verbatim>\<open>%02d\<close>).\<close>

fun show_nat :: "nat \<Rightarrow> string" where
  "show_nat n = (if n < 10 then [digit_char n] else show_nat (n div 10) @ [digit_char (n mod 10)])"

declare show_nat.simps [simp del]

definition two_digits :: "int \<Rightarrow> string" where
  "two_digits n = (if n < 10 then CHR ''0'' # show_nat (nat n) else show_nat (nat n))"

text \<open>
  \<^verbatim>\<open>dt.strftime("%Y-%m-%d %H:%M:%SZ")\<close>; the C library of Linux writes the year without
  padding.
\<close>

definition strftime :: "datetime \<Rightarrow> string" where
  "strftime dt =
     show_nat (nat (year dt)) @ ''-'' @ two_digits (month dt) @ ''-'' @ two_digits (day dt) @ '' '' @
     two_digits (hour dt) @ '':'' @ two_digits (minute dt) @ '':'' @ two_digits (second dt) @ ''Z''"

text \<open>\<^verbatim>\<open>s.replace(c, r)\<close> for a character \<open>c\<close>\<close>

definition py_replace :: "char \<Rightarrow> string \<Rightarrow> string \<Rightarrow> string" where
  "py_replace c r s = concat (map (\<lambda>x. if x = c then r else [x]) s)"

text \<open>
  What a call can see of its process: the environment variables and the local time zone.
\<close>

record process =
  environ :: "string \<rightharpoonup> string"
  local_utcoffset :: "int \<times> int \<times> int \<times> int \<times> int \<times> int \<Rightarrow> int option"

text \<open>
  \<^verbatim>\<open>to_iso8601\<close> (identical in both files). Every exception inside the \<^verbatim>\<open>try\<close> block,
  also the \<^verbatim>\<open>AttributeError\<close> of a value without \<^verbatim>\<open>replace\<close>, returns the argument.
\<close>

definition to_iso8601 :: "process \<Rightarrow> json \<Rightarrow> json" where
  "to_iso8601 proc ts =
     (if \<not> truthy ts then JStr ''-''
      else case ts of
        JStr s \<Rightarrow>
          (case fromisoformat (py_replace (CHR ''Z'') ''+00:00'' s) of
             None \<Rightarrow> ts
           | Some dt \<Rightarrow>
               (case astimezone_utc (local_utcoffset proc) dt of
                  None \<Rightarrow> ts
                | Some utc \<Rightarrow> JStr (strftime utc)))
      | _ \<Rightarrow> ts)"

text \<open>The fields of an object that the constructor has accepted.\<close>

definition valid_datetime :: "datetime \<Rightarrow> bool" where
  "valid_datetime dt =
     (1 \<le> year dt \<and> year dt \<le> 9999 \<and> 1 \<le> month dt \<and> month dt \<le> 12 \<and>
      1 \<le> day dt \<and> day dt \<le> days_in_month (year dt) (month dt) \<and>
      0 \<le> hour dt \<and> hour dt \<le> 23 \<and> 0 \<le> minute dt \<and> minute dt \<le> 59 \<and>
      0 \<le> second dt \<and> second dt \<le> 59 \<and> 0 \<le> microsecond dt \<and> microsecond dt \<le> 999999)"

text \<open>
  A process without environment variables whose local time is UTC. To find the offset of a
  local time CPython also looks one day back, and so it fails on the first day of year 1.
\<close>

definition utc_process :: process where
  "utc_process =
     \<lparr>environ = Map.empty,
      local_utcoffset = (\<lambda>(y, m, d, hh, mm, ss). if y = 1 \<and> m = 1 \<and> d = 1 then None else Some 0)\<rparr>"

section \<open>Text\<close>

text \<open>Decimal digits of an integer (\<^verbatim>\<open>str(i)\<close>).\<close>

definition show_int :: "int \<Rightarrow> string" where
  "show_int i = (if i < 0 then CHR ''-'' # show_nat (nat (- i)) else show_nat (nat i))"

definition hex_char :: "nat \<Rightarrow> char" where
  "hex_char n = ''0123456789abcdef'' ! (n mod 16)"

text \<open>\<^verbatim>\<open>sep.join(parts)\<close>\<close>

fun py_join :: "string \<Rightarrow> string list \<Rightarrow> string" where
  "py_join sep [] = []"
| "py_join sep [x] = x"
| "py_join sep (x # y # ys) = x @ sep @ py_join sep (y # ys)"

text \<open>
  \<^verbatim>\<open>repr(s)\<close> of a string: single quotes, unless the string has a single quote and no
  double quote; the quote and the backslash escaped, tab, newline and carriage return by
  name, every other character that is not printable as \<^verbatim>\<open>\xhh\<close>.
\<close>

definition printable :: "char \<Rightarrow> bool" where
  "printable c = (let n = (of_char c :: nat) in
     32 \<le> n \<and> n \<noteq> 127 \<and> \<not> (128 \<le> n \<and> n \<le> 160) \<and> n \<noteq> 173)"

definition repr_char :: "char \<Rightarrow> char \<Rightarrow> string" where
  "repr_char quote c =
     (if c = quote \<or> c = CHR 0x5C then [CHR 0x5C, c]
      else if c = CHR 0x09 then [CHR 0x5C, CHR ''t'']
      else if c = CHR 0x0A then [CHR 0x5C, CHR ''n'']
      else if c = CHR 0x0D then [CHR 0x5C, CHR ''r'']
      else if printable c then [c]
      else [CHR 0x5C, CHR ''x'', hex_char ((of_char c :: nat) div 16), hex_char (of_char c)])"

definition repr_str :: "string \<Rightarrow> string" where
  "repr_str s =
     (let quote = (if CHR 0x27 \<in> set s \<and> CHR 0x22 \<notin> set s then CHR 0x22 else CHR 0x27)
      in quote # concat (map (repr_char quote) s) @ [quote])"

text \<open>\<^verbatim>\<open>repr(x)\<close>\<close>

fun py_repr :: "json \<Rightarrow> string" where
  "py_repr JNull = ''None''"
| "py_repr (JBool b) = (if b then ''True'' else ''False'')"
| "py_repr (JInt i) = show_int i"
| "py_repr (JStr s) = repr_str s"
| "py_repr (JList xs) = ''['' @ py_join '', '' (map py_repr xs) @ '']''"
| "py_repr (JDict kvs) =
     ''{'' @ py_join '', '' (map (\<lambda>kv. repr_str (fst kv) @ '': '' @ py_repr (snd kv)) kvs) @ ''}''"

text \<open>\<^verbatim>\<open>str(x)\<close>, which is what a replacement field of an f-string writes.\<close>

definition py_str :: "json \<Rightarrow> string" where
  "py_str x = (case x of JStr s \<Rightarrow> s | _ \<Rightarrow> py_repr x)"

text \<open>\<^verbatim>\<open>s.lower()\<close>, on a character and on any object.\<close>

definition lower_char :: "char \<Rightarrow> char" where
  "lower_char c = (let n = (of_char c :: nat) in
     if (65 \<le> n \<and> n \<le> 90) \<or> (192 \<le> n \<and> n \<le> 222 \<and> n \<noteq> 215) then char_of (n + 32) else c)"

definition py_lower :: "json \<Rightarrow> string result" where
  "py_lower x = (case x of JStr s \<Rightarrow> Inr (map lower_char s) | _ \<Rightarrow> Inl AttributeError)"

text \<open>\<^verbatim>\<open>x.startswith(p)\<close>\<close>

definition py_startswith :: "json \<Rightarrow> string \<Rightarrow> bool result" where
  "py_startswith x p = (case x of JStr s \<Rightarrow> Inr (prefix p s) | _ \<Rightarrow> Inl AttributeError)"

text \<open>\<^verbatim>\<open>x[:60]\<close>: a string or a list is cut, no other object can be sliced.\<close>

definition py_slice60 :: "json \<Rightarrow> json result" where
  "py_slice60 x =
     (case x of
        JStr s \<Rightarrow> Inr (JStr (take 60 s))
      | JList xs \<Rightarrow> Inr (JList (take 60 xs))
      | _ \<Rightarrow> Inl TypeError)"

text \<open>\<^verbatim>\<open>s.strip()\<close>\<close>

definition is_space :: "char \<Rightarrow> bool" where
  "is_space c = (let n = (of_char c :: nat) in
     (9 \<le> n \<and> n \<le> 13) \<or> (28 \<le> n \<and> n \<le> 32) \<or> n = 133 \<or> n = 160)"

definition py_strip :: "string \<Rightarrow> string" where
  "py_strip s = rev (dropWhile is_space (rev (dropWhile is_space s)))"

text \<open>\<^verbatim>\<open>a or e\<close>, where evaluating \<open>e\<close> may raise: \<open>e\<close> is evaluated only if \<open>a\<close> is false.\<close>

definition py_or_else :: "json \<Rightarrow> json result \<Rightarrow> json result" where
  "py_or_else a e = (if truthy a then Inr a else e)"

text \<open>
  \<^verbatim>\<open>json.dumps(x)\<close>: strings in double quotes, with the quote, the backslash and every
  character outside the printable ASCII range escaped.
\<close>

definition json_char :: "char \<Rightarrow> string" where
  "json_char c = (let n = (of_char c :: nat) in
     if c = CHR 0x22 then [CHR 0x5C, CHR 0x22]
     else if c = CHR 0x5C then [CHR 0x5C, CHR 0x5C]
     else if c = CHR 0x0A then [CHR 0x5C, CHR ''n'']
     else if c = CHR 0x0D then [CHR 0x5C, CHR ''r'']
     else if c = CHR 0x09 then [CHR 0x5C, CHR ''t'']
     else if c = CHR 0x08 then [CHR 0x5C, CHR ''b'']
     else if c = CHR 0x0C then [CHR 0x5C, CHR ''f'']
     else if 32 \<le> n \<and> n \<le> 126 then [c]
     else [CHR 0x5C, CHR ''u'', CHR ''0'', CHR ''0'', hex_char (n div 16), hex_char n])"

definition json_str :: "string \<Rightarrow> string" where
  "json_str s = CHR 0x22 # concat (map json_char s) @ [CHR 0x22]"

fun json_dumps :: "json \<Rightarrow> string" where
  "json_dumps JNull = ''null''"
| "json_dumps (JBool b) = (if b then ''true'' else ''false'')"
| "json_dumps (JInt i) = show_int i"
| "json_dumps (JStr s) = json_str s"
| "json_dumps (JList xs) = ''['' @ py_join '', '' (map json_dumps xs) @ '']''"
| "json_dumps (JDict kvs) =
     ''{'' @ py_join '', '' (map (\<lambda>kv. json_str (fst kv) @ '': '' @ json_dumps (snd kv)) kvs) @ ''}''"

text \<open>\<^verbatim>\<open>get_env(name, default)\<close>\<close>

definition get_env :: "process \<Rightarrow> string \<Rightarrow> string option \<Rightarrow> string option" where
  "get_env proc name dflt = (case environ proc name of None \<Rightarrow> dflt | Some v \<Rightarrow> Some v)"

section \<open>Payload builder of \<^verbatim>\<open>main.py\<close>\<close>

text \<open>The risk flags (lines 99 to 107), in the order in which they are appended.\<close>

definition ROOT_FLAG :: string where
  "ROOT_FLAG = '':rotating_light: *ROOT ACCOUNT* :rotating_light:''"

definition PRIVILEGED_FLAG :: string where
  "PRIVILEGED_FLAG = '':warning: privileged role?''"

definition EXTERNAL_FLAG :: string where
  "EXTERNAL_FLAG = '':globe_with_meridians: external IP''"

definition privileged_label :: "json \<Rightarrow> json \<Rightarrow> bool result" where
  "privileged_label user_type user_str =
     (if user_type = JStr ''AssumedRole'' then
        and_then (py_lower user_str) (\<lambda>lowered.
        Inr (contains ''admin'' lowered \<or> contains ''prod'' lowered \<or> contains ''power'' lowered))
      else Inr False)"

definition external_ip :: "json \<Rightarrow> bool result" where
  "external_ip source_ip =
     (if source_ip = JStr ''-'' \<or> source_ip = JStr ''127.0.0.1'' then Inr False
      else and_then (py_startswith source_ip ''10.'') (\<lambda>a.
           if a then Inr False
           else and_then (py_startswith source_ip ''192.168.'') (\<lambda>b.
           if b then Inr False
           else and_then (py_startswith source_ip ''172.16.'') (\<lambda>c. Inr (\<not> c)))))"

definition risk_flags :: "json \<Rightarrow> json \<Rightarrow> json \<Rightarrow> string list result" where
  "risk_flags user_type user_str source_ip =
     and_then (privileged_label user_type user_str) (\<lambda>privileged.
     and_then (external_ip source_ip) (\<lambda>external.
     Inr ((if user_type = JStr ''Root'' then [ROOT_FLAG] else []) @
          (if privileged then [PRIVILEGED_FLAG] else []) @
          (if external then [EXTERNAL_FLAG] else []))))"

text \<open>The local variables that \<^verbatim>\<open>build_slack_payload\<close> reads from the event (lines 73 to 94).\<close>

record event_fields =
  event_name :: json
  region :: json
  event_time :: json
  source_ip :: json
  user_agent :: json
  event_id :: json
  user_str :: json
  user_fields :: dict
  user_type :: json
  target :: json
  doc_name :: json
  reason :: json
  session_id :: json

text \<open>
  \<^verbatim>\<open>resp.get("sessionId") or resp.get("SessionId") or
  (resp.get("StartSessionResponse", {}).get("SessionId")) or "-"\<close>
\<close>

definition get_session_id :: "json \<Rightarrow> json result" where
  "get_session_id resp =
     and_then (py_get resp ''sessionId'' JNull) (\<lambda>a.
     py_or_else a
       (and_then (py_get resp ''SessionId'' JNull) (\<lambda>b.
        py_or_else b
          (and_then (py_get resp ''StartSessionResponse'' (JDict [])) (\<lambda>wrapper.
           and_then (py_get wrapper ''SessionId'' JNull) (\<lambda>c.
           Inr (py_or c (JStr ''-''))))))))"

text \<open>\<^verbatim>\<open>d.get(k1) or d.get(k2) or "-"\<close>\<close>

definition get_either :: "json \<Rightarrow> string \<Rightarrow> string \<Rightarrow> json result" where
  "get_either d k1 k2 =
     and_then (py_get d k1 JNull) (\<lambda>a.
     py_or_else a (and_then (py_get d k2 JNull) (\<lambda>b. Inr (py_or b (JStr ''-'')))))"

definition resolve_fields :: "process \<Rightarrow> json \<Rightarrow> event_fields result" where
  "resolve_fields proc event =
     and_then (py_get event ''detail'' (JDict [])) (\<lambda>detail.
     and_then (py_get detail ''eventName'' (JStr ''UnknownEvent'')) (\<lambda>event_name.
     and_then (py_get detail ''awsRegion'' (JStr ''-'')) (\<lambda>region.
     and_then (py_get detail ''eventTime'' JNull) (\<lambda>raw_time.
     and_then (py_get detail ''sourceIPAddress'' (JStr ''-'')) (\<lambda>source_ip.
     and_then (py_get detail ''userAgent'' (JStr ''-'')) (\<lambda>user_agent.
     and_then (get_either detail ''eventID'' ''eventId'') (\<lambda>event_id.
     and_then (py_get detail ''userIdentity'' (JDict [])) (\<lambda>user_identity.
     and_then (build_user_summary user_identity) (\<lambda>(user_str, user_fields).
     and_then (py_get detail ''requestParameters'' (JDict [])) (\<lambda>req0.
     and_then (py_get detail ''responseElements'' (JDict [])) (\<lambda>resp0.
     let req = py_or req0 (JDict []); resp = py_or resp0 (JDict []) in
     and_then (get_either req ''target'' ''Target'') (\<lambda>target.
     and_then (get_either req ''documentName'' ''DocumentName'') (\<lambda>doc_name.
     and_then (get_either req ''reason'' ''Reason'') (\<lambda>reason.
     and_then (get_session_id resp) (\<lambda>session_id.
     Inr \<lparr>event_name = event_name, region = region, event_time = to_iso8601 proc raw_time,
          source_ip = source_ip, user_agent = user_agent, event_id = event_id,
          user_str = user_str, user_fields = user_fields,
          user_type = dict_get user_fields ''UserType'' (JStr ''-''),
          target = target, doc_name = doc_name, reason = reason,
          session_id = session_id\<rparr>)))))))))))))))"

text \<open>The link to the CloudTrail console (lines 110 to 112).\<close>

definition console_link :: "event_fields \<Rightarrow> string option" where
  "console_link f =
     (if event_id f \<noteq> JStr ''-'' \<and> region f \<noteq> JStr ''-'' then
        Some (''https://'' @ py_str (region f) @ ''.console.aws.amazon.com/cloudtrail/home?region=''
              @ py_str (region f) @ ''#/events/'' @ py_str (event_id f))
      else None)"

text \<open>The fallback text (lines 115 to 117).\<close>

definition fallback_text :: "event_fields \<Rightarrow> string" where
  "fallback_text f =
     py_str (event_name f) @ '' '' @ py_str (user_str f) @ '' -> '' @ py_str (target f)
       @ '' ('' @ py_str (region f) @ '') session='' @ py_str (session_id f)
       @ '' doc='' @ py_str (doc_name f) @ '' ip='' @ py_str (source_ip f)
       @ (if truthy (reason f) \<and> reason f \<noteq> JStr ''-'' then '' reason='' @ py_str (reason f) else [])"

definition header_text :: "event_fields \<Rightarrow> string" where
  "header_text f =
     (if event_name f = JStr ''StartSession'' then '':large_blue_circle:'' else '':information_source:'')
       @ '' SSM '' @ py_str (event_name f)"

text \<open>The lines of the section block (lines 122 to 131).\<close>

definition summary_lines :: "event_fields \<Rightarrow> string list \<Rightarrow> string list" where
  "summary_lines f flags =
     [''*User:* '' @ py_str (user_str f) @ ''  |  *Acct:* ''
        @ py_str (dict_get (user_fields f) ''Account'' (JStr ''-'')),
      ''*Target:* `'' @ py_str (target f) @ ''`  |  *Session:* `'' @ py_str (session_id f) @ ''`'',
      ''*Doc:* `'' @ py_str (doc_name f) @ ''`  |  *Region:* '' @ py_str (region f),
      ''*IP:* '' @ py_str (source_ip f)]
     @ (if truthy (reason f) \<and> reason f \<noteq> JStr ''-'' then [''*Reason:* _'' @ py_str (reason f) @ ''_''] else [])
     @ (if flags \<noteq> [] then [py_join [CHR 0x0A] flags] else [])"

definition mrkdwn :: "string \<Rightarrow> json" where
  "mrkdwn t = JDict [(''type'', JStr ''mrkdwn''), (''text'', JStr t)]"

definition section_block :: "process \<Rightarrow> event_fields \<Rightarrow> string list \<Rightarrow> json" where
  "section_block proc f flags =
     (let icon_url = py_strip (case environ proc ''ICON_URL'' of None \<Rightarrow> [] | Some v \<Rightarrow> v)
      in JDict ([(''type'', JStr ''section''),
                 (''text'', mrkdwn (py_join [CHR 0x0A] (summary_lines f flags)))]
                @ (if icon_url \<noteq> [] then
                     [(''accessory'', JDict [(''type'', JStr ''image''), (''image_url'', JStr icon_url),
                                             (''alt_text'', JStr ''icon'')])]
                   else [])))"

definition context_elems :: "event_fields \<Rightarrow> json \<Rightarrow> json list" where
  "context_elems f agent =
     [mrkdwn (''*Time:* '' @ py_str (event_time f)),
      mrkdwn (''*UserType:* '' @ py_str (user_type f)),
      mrkdwn (''UA: '' @ py_str agent)]
     @ (case console_link f of
          None \<Rightarrow> []
        | Some link \<Rightarrow> [mrkdwn (''<'' @ link @ ''|CloudTrail Event>'')])"

text \<open>The destination channel, added only when the stripped setting is not empty.\<close>

definition channel_entry :: "process \<Rightarrow> dict" where
  "channel_entry proc =
     (let slack_channel = py_strip (case get_env proc ''SLACK_CHANNEL'' (Some []) of None \<Rightarrow> [] | Some v \<Rightarrow> v)
      in if slack_channel \<noteq> [] then [(''channel'', JStr slack_channel)] else [])"

definition build_slack_payload :: "process \<Rightarrow> json \<Rightarrow> json result" where
  "build_slack_payload proc event =
     and_then (resolve_fields proc event) (\<lambda>f.
     and_then (risk_flags (user_type f) (user_str f) (source_ip f)) (\<lambda>flags.
     and_then (py_slice60 (user_agent f)) (\<lambda>agent.
     Inr (JDict
       ([(''text'', JStr (fallback_text f)),
         (''blocks'', JList
            [JDict [(''type'', JStr ''header''),
                    (''text'', JDict [(''type'', JStr ''plain_text''), (''text'', JStr (header_text f))])],
             section_block proc f flags,
             JDict [(''type'', JStr ''divider'')],
             JDict [(''type'', JStr ''context''), (''elements'', JList (context_elems f agent))]]),
         (''unfurl_links'', JBool False),
         (''unfurl_media'', JBool False),
         (''username'', JStr ''SSM Alerts''),
         (''icon_emoji'', JStr '':lock:'')]
        @ channel_entry proc)))))"

section \<open>Payload builder of \<^verbatim>\<open>lambda_function.py\<close>\<close>

text \<open>
  The second \<^verbatim>\<open>build_slack_payload\<close>, of \<^verbatim>\<open>lambda_function.py\<close>. Its definitions carry the
  prefix \<open>lf\<close>; the summarizer, the timestamp normalizer and the delivery are the same as in
  \<^verbatim>\<open>main.py\<close>.
\<close>

record lf_event_fields =
  lf_event_name :: json
  lf_region :: json
  lf_event_time :: json
  lf_source_ip :: json
  lf_user_agent :: json
  lf_user_str :: json
  lf_user_fields :: dict
  lf_target :: json
  lf_reason :: json
  lf_session_id :: json

definition lf_resolve_fields :: "process \<Rightarrow> json \<Rightarrow> lf_event_fields result" where
  "lf_resolve_fields proc event =
     and_then (py_get event ''detail'' (JDict [])) (\<lambda>detail.
     and_then (py_get detail ''eventName'' (JStr ''UnknownEvent'')) (\<lambda>event_name.
     and_then (py_get detail ''awsRegion'' (JStr ''-'')) (\<lambda>region.
     and_then (py_get detail ''eventTime'' JNull) (\<lambda>raw_time.
     and_then (py_get detail ''sourceIPAddress'' (JStr ''-'')) (\<lambda>source_ip.
     and_then (py_get detail ''userAgent'' (JStr ''-'')) (\<lambda>user_agent.
     and_then (py_get detail ''userIdentity'' (JDict [])) (\<lambda>user_identity.
     and_then (build_user_summary user_identity) (\<lambda>(user_str, user_fields).
     and_then (py_get detail ''requestParameters'' (JDict [])) (\<lambda>req0.
     and_then (py_get detail ''responseElements'' (JDict [])) (\<lambda>resp0.
     let req = py_or req0 (JDict []); resp = py_or resp0 (JDict []) in
     and_then (get_either req ''target'' ''Target'') (\<lambda>target.
     and_then (get_either req ''reason'' ''Reason'') (\<lambda>reason.
     and_then (get_session_id resp) (\<lambda>session_id.
     Inr \<lparr>lf_event_name = event_name, lf_region = region,
          lf_event_time = to_iso8601 proc raw_time,
          lf_source_ip = source_ip, lf_user_agent = user_agent,
          lf_user_str = user_str, lf_user_fields = user_fields,
          lf_target = target, lf_reason = reason, lf_session_id = session_id\<rparr>)))))))))))))"

definition lf_title :: "lf_event_fields \<Rightarrow> string" where
  "lf_title f =
     (if lf_event_name f = JStr ''StartSession'' then '':large_blue_circle:''
      else if lf_event_name f = JStr ''TerminateSession'' then '':white_check_mark:''
      else '':information_source:'')
     @ '' SSM '' @ py_str (lf_event_name f)"

text \<open>The lines of the fallback text (lines 98 to 109).\<close>

definition lf_text_lines :: "lf_event_fields \<Rightarrow> string list" where
  "lf_text_lines f =
     [''SSM '' @ py_str (lf_event_name f),
      ''User: '' @ py_str (lf_user_str f),
      ''Account: '' @ py_str (dict_get (lf_user_fields f) ''Account'' (JStr ''-'')),
      ''Target: '' @ py_str (lf_target f),
      ''SessionId: '' @ py_str (lf_session_id f),
      ''Region: '' @ py_str (lf_region f),
      ''Source IP: '' @ py_str (lf_source_ip f),
      ''Time: '' @ py_str (lf_event_time f)]
     @ (if truthy (lf_reason f) \<and> lf_reason f \<noteq> JStr ''-''
        then [''Reason: '' @ py_str (lf_reason f)] else [])"

definition lf_blocks :: "lf_event_fields \<Rightarrow> json list" where
  "lf_blocks f =
     [JDict [(''type'', JStr ''header''),
             (''text'', JDict [(''type'', JStr ''plain_text''), (''text'', JStr (lf_title f))])],
      JDict [(''type'', JStr ''section''),
             (''fields'', JList
                [mrkdwn (''*User*'' @ [CHR 0x0A] @ py_str (lf_user_str f)),
                 mrkdwn (''*Account*'' @ [CHR 0x0A]
                         @ py_str (dict_get (lf_user_fields f) ''Account'' (JStr ''-''))),
                 mrkdwn (''*Target*'' @ [CHR 0x0A] @ py_str (lf_target f)),
                 mrkdwn (''*Session ID*'' @ [CHR 0x0A] @ py_str (lf_session_id f)),
                 mrkdwn (''*Region*'' @ [CHR 0x0A] @ py_str (lf_region f)),
                 mrkdwn (''*Source IP*'' @ [CHR 0x0A] @ py_str (lf_source_ip f))])]]
     @ (if truthy (lf_reason f) \<and> lf_reason f \<noteq> JStr ''-''
        then [JDict [(''type'', JStr ''section''),
                     (''text'', mrkdwn (''*Reason*'' @ [CHR 0x0A] @ py_str (lf_reason f)))]]
        else [])
     @ [JDict [(''type'', JStr ''context''),
               (''elements'', JList
                  [mrkdwn (''Time: '' @ py_str (lf_event_time f)),
                   mrkdwn (''UserAgent: '' @ py_str (lf_user_agent f))])]]"

definition lf_build_slack_payload :: "process \<Rightarrow> json \<Rightarrow> json result" where
  "lf_build_slack_payload proc event =
     and_then (lf_resolve_fields proc event) (\<lambda>f.
     Inr (JDict
       ([(''text'', JStr (py_join [CHR 0x0A] (lf_text_lines f))),
         (''blocks'', JList (lf_blocks f)),
         (''unfurl_links'', JBool False),
         (''unfurl_media'', JBool False),
         (''username'', JStr ''SSM Alerts''),
         (''icon_emoji'', JStr '':lock:'')]
        @ channel_entry proc)))"

section \<open>Delivery\<close>

text \<open>
  The request that \<^verbatim>\<open>send_to_slack\<close> builds, and what \<^verbatim>\<open>urllib.request.urlopen\<close> does with
  it: it answers with a status and a body, or raises \<^verbatim>\<open>HTTPError\<close> with the code and the
  body of the answer, or raises \<^verbatim>\<open>URLError\<close> (the text is \<^verbatim>\<open>str(e)\<close>), or raises
  something else. The network is a parameter of the model, a function from requests to
  outcomes.
\<close>

record request =
  full_url :: string
  data :: string
  headers :: "(string \<times> string) list"
  http_method :: string
  timeout :: nat

datatype urlopen_outcome =
    Responds int string
  | HTTPError int string
  | URLError string
  | OtherException string

text \<open>
  \<^verbatim>\<open>urllib.request.Request\<close> unwraps the URL and raises \<^verbatim>\<open>ValueError\<close> unless it starts
  with a scheme: characters other than \<^verbatim>\<open>/\<close> and \<^verbatim>\<open>:\<close>, at least one, and then a colon.
\<close>

definition unwrap :: "string \<Rightarrow> string" where
  "unwrap url =
     (let u = py_strip url;
          u = (if take 1 u = ''<'' \<and> take 1 (rev u) = ''>'' then py_strip (butlast (drop 1 u)) else u)
      in if take 4 u = ''URL:'' then py_strip (drop 4 u) else u)"

definition splittag :: "string \<Rightarrow> string" where
  "splittag url =
     (if CHR ''#'' \<in> set url then rev (drop 1 (dropWhile (\<lambda>c. c \<noteq> CHR ''#'') (rev url))) else url)"

definition has_url_type :: "string \<Rightarrow> bool" where
  "has_url_type url =
     (let u = splittag (unwrap url);
          scheme = takeWhile (\<lambda>c. c \<noteq> CHR ''/'' \<and> c \<noteq> CHR '':'') u
      in scheme \<noteq> [] \<and> take 1 (drop (length scheme) u) = '':'')"

text \<open>
  \<^verbatim>\<open>send_to_slack\<close> (identical in both files): the result, and the requests handed to
  \<^verbatim>\<open>urlopen\<close> in the course of the call.
\<close>

definition send_to_slack ::
  "process \<Rightarrow> (request \<Rightarrow> urlopen_outcome) \<Rightarrow> json \<Rightarrow> (int \<times> string) result \<times> request list" where
  "send_to_slack proc urlopen payload =
     (case get_env proc ''SLACK_WEBHOOK_URL'' None of
        None \<Rightarrow> (Inl (RuntimeError ''SLACK_WEBHOOK_URL is not set''), [])
      | Some webhook \<Rightarrow>
          if webhook = [] then (Inl (RuntimeError ''SLACK_WEBHOOK_URL is not set''), [])
          else
            (let body = json_dumps payload in
             if \<not> has_url_type webhook then (Inl ValueError, [])
             else
               (let req = \<lparr>full_url = webhook, data = body,
                           headers = [(''Content-Type'', ''application/json; charset=utf-8'')],
                           http_method = ''POST'', timeout = 10\<rparr>
                in case urlopen req of
                     Responds status resp_body \<Rightarrow> (Inr (status, resp_body), [req])
                   | HTTPError code err \<Rightarrow> (Inr (code, err), [req])
                   | URLError description \<Rightarrow> (Inr (599, description), [req])
                   | OtherException e \<Rightarrow> (Inl (Propagated e), [req]))))"

section \<open>Auxiliary facts\<close>


lemma and_then_simps: "and_then (Inr v) f = f v" "and_then (Inl e) f = Inl e"
  by (simp_all add: and_then_def)

lemma split_on_ne: "split_on c s \<noteq> []"
  by (induction s) (simp_all split: list.splits)

lemma split_on_notin: "c \<notin> set s \<Longrightarrow> split_on c s = [s]"
  by (induction s) auto

lemma split_on_in: "c \<in> set s \<Longrightarrow> \<exists>p q ps. split_on c s = p # q # ps"
proof (induction s)
  case Nil
  then show ?case by simp
next
  case (Cons x xs)
  show ?case
  proof (cases "x = c")
    case True
    obtain q ps where "split_on c xs = q # ps"
      using split_on_ne[of c xs] by (cases "split_on c xs") auto
    with True show ?thesis by simp
  next
    case False
    with Cons.prems have "c \<in> set xs" by simp
    from Cons.IH[OF this] obtain p q ps where "split_on c xs = p # q # ps" by blast
    with False show ?thesis by simp
  qed
qed

lemma after_last_Cons:
  "after_last c (x # xs) = (if c \<in> set xs then after_last c xs else if x = c then xs else x # xs)"
  by (auto simp: after_last_def takeWhile_append)

lemma last_split_on: "last (split_on c s) = after_last c s"
proof (induction s)
  case Nil
  show ?case by (simp add: after_last_def)
next
  case (Cons x xs)
  show ?case
  proof (cases "c \<in> set xs")
    case True
    from split_on_in[OF True] obtain p q ps where e: "split_on c xs = p # q # ps" by blast
    with Cons.IH True show ?thesis by (simp add: after_last_Cons)
  next
    case False
    then show ?thesis by (simp add: after_last_Cons split_on_notin)
  qed
qed

lemma contains_sublist: "contains n h \<longleftrightarrow> sublist n h"
  by (induction h) (auto simp: sublist_Cons_right)

lemma contains_char: "contains [c] s \<longleftrightarrow> c \<in> set s"
  by (induction s) auto


section \<open>The branches of the summarizer\<close>




lemma bus_role:
  "dict_get ui ''type'' JNull = JStr ''AssumedRole'' \<Longrightarrow>
   build_user_summary (JDict ui) =
     and_then (py_in ''/'' (py_or (dict_get ui ''arn'' JNull) (JStr ''''))) (\<lambda>has_slash.
     and_then
       (if has_slash
        then and_then (py_split (py_or (dict_get ui ''arn'' JNull) (JStr '''')) (CHR ''/'')) (\<lambda>parts.
             and_then (py_last parts) (\<lambda>seg. Inr (JStr seg)))
        else Inr (py_or (dict_get ui ''userName'' JNull)
                    (py_or (dict_get ui ''principalId'' JNull) (JStr ''assumed-role''))))
       (\<lambda>session_name.
     and_then (py_get (JDict ui) ''sessionContext'' (JDict [])) (\<lambda>session_context.
     and_then (py_get session_context ''sessionIssuer'' (JDict [])) (\<lambda>session_issuer.
     and_then (py_get session_issuer ''arn'' JNull) (\<lambda>issuer_arn.
     Inr (session_name,
          base_extras ui @ [(''UserType'', JStr ''AssumedRole''),
                            (''RoleIssuer'', py_or issuer_arn (JStr ''-''))]))))))"
  by (simp add: build_user_summary_def Let_def base_extras_def)









lemma nested_issuer_lookup:
  assumes "dict_get ui ''sessionContext'' (JDict []) = JDict sc"
    and "dict_get sc ''sessionIssuer'' (JDict []) = JDict si"
  shows "(case nested_issuer_arn ui of None \<Rightarrow> JStr ''-'' | Some a \<Rightarrow> py_or a (JStr ''-''))
         = py_or (dict_get si ''arn'' JNull) (JStr ''-'')"
proof (cases "map_of ui ''sessionContext''")
  case None
  with assms(1) have "sc = []" by (simp add: dict_get_def)
  with assms(2) have "si = []" by (simp add: dict_get_def)
  with None show ?thesis by (simp add: nested_issuer_arn_def dict_get_def py_or_def)
next
  case (Some v)
  with assms(1) have v: "v = JDict sc" by (simp add: dict_get_def)
  show ?thesis
  proof (cases "map_of sc ''sessionIssuer''")
    case None
    with assms(2) have "si = []" by (simp add: dict_get_def)
    with None Some v show ?thesis by (simp add: nested_issuer_arn_def dict_get_def py_or_def)
  next
    case (Some w)
    with assms(2) have w: "w = JDict si" by (simp add: dict_get_def)
    show ?thesis
    proof (cases "map_of si ''arn''")
      case None
      with Some w \<open>map_of ui ''sessionContext'' = Some v\<close> v show ?thesis
        by (simp add: nested_issuer_arn_def dict_get_def py_or_def)
    next
      case (Some a)
      with \<open>map_of sc ''sessionIssuer'' = Some w\<close> w \<open>map_of ui ''sessionContext'' = Some v\<close> v
      show ?thesis by (simp add: nested_issuer_arn_def dict_get_def)
    qed
  qed
qed


section \<open>Properties of the summarizer\<close>




text \<open>
  Claim C6, as the code has it by design. For an identity of type \<^verbatim>\<open>AssumedRole\<close> whose ARN is
  absent, null or a string and whose session context and session issuer are absent or
  objects, the summarizer returns: the label is the text after the last slash of the ARN if
  the ARN contains a slash, and otherwise \<^verbatim>\<open>userName\<close>, then \<^verbatim>\<open>principalId\<close>, then
  \<^verbatim>\<open>assumed-role\<close>; the mapping holds \<^verbatim>\<open>Account\<close>, \<^verbatim>\<open>Principal\<close>, \<^verbatim>\<open>UserType\<close> and \<^verbatim>\<open>RoleIssuer\<close>,
  the last being the value under \<^verbatim>\<open>sessionContext.sessionIssuer.arn\<close>, or \<^verbatim>\<open>-\<close> when that is
  absent, null or otherwise false.
\<close>

theorem assumed_role_summary:
  assumes "dict_get ui ''type'' JNull = JStr ''AssumedRole''" and "session_context_ok ui"
  shows "build_user_summary (JDict ui) =
     Inr (case dict_get ui ''arn'' JNull of
            JStr s \<Rightarrow>
              if CHR ''/'' \<in> set s then JStr (after_last (CHR ''/'') s)
              else py_or (dict_get ui ''userName'' JNull)
                     (py_or (dict_get ui ''principalId'' JNull) (JStr ''assumed-role''))
          | _ \<Rightarrow> py_or (dict_get ui ''userName'' JNull)
                     (py_or (dict_get ui ''principalId'' JNull) (JStr ''assumed-role'')),
          [(''Account'', py_or (dict_get ui ''accountId'' JNull) (JStr ''-'')),
           (''Principal'', py_or (dict_get ui ''principalId'' JNull) (JStr ''-'')),
           (''UserType'', JStr ''AssumedRole''),
           (''RoleIssuer'', case nested_issuer_arn ui of
                               None \<Rightarrow> JStr ''-''
                             | Some a \<Rightarrow> py_or a (JStr ''-''))])"
proof -
  from assms(2) have "is_dict (dict_get ui ''sessionContext'' (JDict []))"
    by (simp add: session_context_ok_def)
  then obtain sc where sc: "dict_get ui ''sessionContext'' (JDict []) = JDict sc"
    by (cases "dict_get ui ''sessionContext'' (JDict [])") (simp_all add: is_dict_def)
  from assms(2) sc have "is_dict (dict_get sc ''sessionIssuer'' (JDict []))"
    by (simp add: session_context_ok_def)
  then obtain si where si: "dict_get sc ''sessionIssuer'' (JDict []) = JDict si"
    by (cases "dict_get sc ''sessionIssuer'' (JDict [])") (simp_all add: is_dict_def)
  note nested = nested_issuer_lookup[OF sc si]
  from assms(2) have arn: "is_str_or_null (dict_get ui ''arn'' JNull)"
    by (simp add: session_context_ok_def)
  show ?thesis
  proof (cases "dict_get ui ''arn'' JNull")
    case JNull
    then show ?thesis
      unfolding bus_role[OF assms(1)] nested
      by (simp add: py_or_def py_in_def py_get_def sc si and_then_simps base_extras_def)
  next
    case (JStr s)
    show ?thesis
    proof (cases "CHR ''/'' \<in> set s")
      case True
      then have "s \<noteq> []" by auto
      with True JStr show ?thesis
        unfolding bus_role[OF assms(1)] nested
        by (simp add: py_or_def py_in_def contains_char py_split_def py_last_def split_on_ne
            last_split_on py_get_def sc si and_then_simps base_extras_def)
    next
      case False
      with JStr show ?thesis
        unfolding bus_role[OF assms(1)] nested
        by (simp add: py_or_def py_in_def contains_char py_get_def sc si and_then_simps
            base_extras_def)
    qed
  qed (use arn in \<open>simp_all add: is_str_or_null_def\<close>)
qed

text \<open>The theorem of C6 at a role session with an issuer, and at one without an ARN.\<close>

theorem assumed_role_summary_witness:
  "dict_get [(''type'', JStr ''AssumedRole''), (''arn'', JStr ''arn:aws:sts::1:assumed-role/Ops/bob''),
             (''sessionContext'', JDict [(''sessionIssuer'', JDict [(''arn'', JStr ''arn:aws:iam::1:role/Ops'')])])]
     ''type'' JNull = JStr ''AssumedRole'' \<and>
   session_context_ok [(''type'', JStr ''AssumedRole''), (''arn'', JStr ''arn:aws:sts::1:assumed-role/Ops/bob''),
             (''sessionContext'', JDict [(''sessionIssuer'', JDict [(''arn'', JStr ''arn:aws:iam::1:role/Ops'')])])] \<and>
   build_user_summary (JDict [(''type'', JStr ''AssumedRole''), (''arn'', JStr ''arn:aws:sts::1:assumed-role/Ops/bob''),
             (''sessionContext'', JDict [(''sessionIssuer'', JDict [(''arn'', JStr ''arn:aws:iam::1:role/Ops'')])])])
     = Inr (JStr ''bob'', [(''Account'', JStr ''-''), (''Principal'', JStr ''-''),
          (''UserType'', JStr ''AssumedRole''), (''RoleIssuer'', JStr ''arn:aws:iam::1:role/Ops'')]) \<and>
   session_context_ok [(''type'', JStr ''AssumedRole''), (''userName'', JStr ''carol'')] \<and>
   build_user_summary (JDict [(''type'', JStr ''AssumedRole''), (''userName'', JStr ''carol'')])
     = Inr (JStr ''carol'', [(''Account'', JStr ''-''), (''Principal'', JStr ''-''),
          (''UserType'', JStr ''AssumedRole''), (''RoleIssuer'', JStr ''-'')])"
  using assumed_role_summary[of "[(''type'', JStr ''AssumedRole''), (''arn'', JStr ''arn:aws:sts::1:assumed-role/Ops/bob''),
             (''sessionContext'', JDict [(''sessionIssuer'', JDict [(''arn'', JStr ''arn:aws:iam::1:role/Ops'')])])]"]
    assumed_role_summary[of "[(''type'', JStr ''AssumedRole''), (''userName'', JStr ''carol'')]"]
  by (simp add: dict_get_def py_or_def session_context_ok_def is_dict_def is_str_or_null_def
      after_last_def nested_issuer_arn_def)

text \<open>
  Claim C6 as stated fails: with a null session context the issuer is absent, yet the call
  raises \<^verbatim>\<open>AttributeError\<close> where the claim has the placeholder; an ARN that is a number
  raises \<^verbatim>\<open>TypeError\<close> where the claim has the fallback label; and an issuer ARN that is
  present but empty is replaced by the placeholder.
\<close>

theorem assumed_role_counterexample:
  "build_user_summary (JDict [(''type'', JStr ''AssumedRole''),
       (''arn'', JStr ''arn:aws:sts::1:assumed-role/Ops/bob''), (''sessionContext'', JNull)])
     = Inl AttributeError \<and>
   nested_issuer_arn [(''type'', JStr ''AssumedRole''),
       (''arn'', JStr ''arn:aws:sts::1:assumed-role/Ops/bob''), (''sessionContext'', JNull)] = None \<and>
   build_user_summary (JDict [(''type'', JStr ''AssumedRole''), (''arn'', JInt 5)]) = Inl TypeError \<and>
   build_user_summary (JDict [(''type'', JStr ''AssumedRole''),
       (''sessionContext'', JDict [(''sessionIssuer'', JDict [(''arn'', JStr [])])])])
     = Inr (JStr ''assumed-role'', [(''Account'', JStr ''-''), (''Principal'', JStr ''-''),
          (''UserType'', JStr ''AssumedRole''), (''RoleIssuer'', JStr ''-'')]) \<and>
   nested_issuer_arn [(''type'', JStr ''AssumedRole''),
       (''sessionContext'', JDict [(''sessionIssuer'', JDict [(''arn'', JStr [])])])] = Some (JStr [])"
  by (simp add: build_user_summary_def dict_get_def py_or_def py_in_def and_then_def py_split_def
      py_last_def py_get_def nested_issuer_arn_def)


section \<open>Reading and writing digits\<close>

lemma parse_digits_from_unfold:
  "parse_digits_from acc n s =
     (if n = 0 then Some (acc, s)
      else case s of [] \<Rightarrow> None
           | c # cs \<Rightarrow> if is_digit c then parse_digits_from (acc * 10 + digit_val c) (n - 1) cs else None)"
  by (cases n; cases s) simp_all

lemma digit_char_cases:
  assumes "n < 10"
  shows "digit_char n \<in> set ''0123456789''"
proof -
  from assms have "n mod 10 < length ''0123456789''" by simp
  then have "''0123456789'' ! (n mod 10) \<in> set ''0123456789''" by (rule nth_mem)
  then show ?thesis by (simp only: digit_char_def)
qed

lemma digit_char_props:
  assumes "n < 10"
  shows "is_digit (digit_char n)" and "digit_val (digit_char n) = n"
    and "(of_char (digit_char n) :: nat) < 128"
    and "digit_char n \<noteq> CHR ''-''" and "digit_char n \<noteq> CHR ''W''" and "digit_char n \<noteq> CHR ''Z''"
    and "digit_char n \<noteq> CHR ''+''" and "digit_char n \<noteq> CHR '':''" and "digit_char n \<noteq> CHR 0x00"
    and "digit_char n \<noteq> CHR ''.''" and "digit_char n \<noteq> CHR '',''"
proof -
  from assms have "n \<in> {0, 1, 2, 3, 4, 5, 6, 7, 8, 9}" by auto
  then have "is_digit (digit_char n) \<and> digit_val (digit_char n) = n
    \<and> (of_char (digit_char n) :: nat) < 128
    \<and> digit_char n \<noteq> CHR ''-'' \<and> digit_char n \<noteq> CHR ''W'' \<and> digit_char n \<noteq> CHR ''Z''
    \<and> digit_char n \<noteq> CHR ''+'' \<and> digit_char n \<noteq> CHR '':'' \<and> digit_char n \<noteq> CHR 0x00
    \<and> digit_char n \<noteq> CHR ''.'' \<and> digit_char n \<noteq> CHR '',''"
    by (auto simp: digit_char_def is_digit_def digit_val_def)
  then show "is_digit (digit_char n)" and "digit_val (digit_char n) = n"
    and "(of_char (digit_char n) :: nat) < 128"
    and "digit_char n \<noteq> CHR ''-''" and "digit_char n \<noteq> CHR ''W''" and "digit_char n \<noteq> CHR ''Z''"
    and "digit_char n \<noteq> CHR ''+''" and "digit_char n \<noteq> CHR '':''" and "digit_char n \<noteq> CHR 0x00"
    and "digit_char n \<noteq> CHR ''.''" and "digit_char n \<noteq> CHR '',''"
    by simp_all
qed

lemma parse_two_digits:
  assumes "a < 10" and "b < 10"
  shows "parse_digits 2 (digit_char a # digit_char b # rest) = Some (10 * a + b, rest)"
  using assms by (simp add: parse_digits_def parse_digits_from_unfold digit_char_props)

lemma parse_four_digits:
  assumes "a < 10" and "b < 10" and "c < 10" and "d < 10"
  shows "parse_digits 4 (digit_char a # digit_char b # digit_char c # digit_char d # rest)
         = Some (1000 * a + 100 * b + 10 * c + d, rest)"
  using assms by (simp add: parse_digits_def parse_digits_from_unfold digit_char_props)

lemma show_nat_1: "n < 10 \<Longrightarrow> show_nat n = [digit_char n]"
  by (simp add: show_nat.simps)

lemma show_nat_2: "10 \<le> n \<Longrightarrow> n < 100 \<Longrightarrow> show_nat n = [digit_char (n div 10), digit_char (n mod 10)]"
  by (subst show_nat.simps) (simp add: show_nat_1)

lemma show_nat_3:
  "100 \<le> n \<Longrightarrow> n < 1000 \<Longrightarrow>
   show_nat n = [digit_char (n div 100), digit_char (n div 10 mod 10), digit_char (n mod 10)]"
  by (subst show_nat.simps) (simp add: show_nat_2 div_mult2_eq[symmetric])

lemma show_nat_4:
  "1000 \<le> n \<Longrightarrow> n < 10000 \<Longrightarrow>
   show_nat n = [digit_char (n div 1000), digit_char (n div 100 mod 10), digit_char (n div 10 mod 10),
                 digit_char (n mod 10)]"
  by (subst show_nat.simps) (simp add: show_nat_3 div_mult2_eq[symmetric])

lemma two_digits_eq:
  "0 \<le> n \<Longrightarrow> n < 100 \<Longrightarrow> two_digits n = [digit_char (nat n div 10), digit_char (nat n mod 10)]"
  by (cases "n < 10") (simp_all add: two_digits_def show_nat_1 show_nat_2 digit_char_def)


section \<open>Parsing the normal form\<close>

lemma utf8_ascii: "\<forall>c \<in> set s. (of_char c :: nat) < 128 \<Longrightarrow> utf8 s = s"
  by (induction s) (simp_all add: utf8_def)

lemma parse_date_canonical:
  assumes "y3 < 10" "y2 < 10" "y1 < 10" "y0 < 10" "m1 < 10" "m0 < 10" "d1 < 10" "d0 < 10"
  shows "parse_isoformat_date
           (digit_char y3 # digit_char y2 # digit_char y1 # digit_char y0 # CHR ''-'' #
            digit_char m1 # digit_char m0 # CHR ''-'' # digit_char d1 # digit_char d0 # rest) n
         = Some (int (1000 * y3 + 100 * y2 + 10 * y1 + y0), int (10 * m1 + m0), int (10 * d1 + d0))"
  using assms
  by (simp add: parse_isoformat_date_def parse_four_digits parse_two_digits nth0_def digit_char_props)

lemma scan_canonical:
  assumes "h1 < 10" "h0 < 10" "m1 < 10" "m0 < 10" "s1 < 10" "s0 < 10"
  shows "scan_hh_mm_ss 0 0 True [0, 0, 0]
           (digit_char h1 # digit_char h0 # CHR '':'' # digit_char m1 # digit_char m0 # CHR '':'' #
            digit_char s1 # digit_char s0 # c # rest) 8
         = Whole [10 * h1 + h0, 10 * m1 + m0, 10 * s1 + s0] (c \<noteq> CHR 0x00)"
  using assms
  by (simp add: scan_hh_mm_ss.simps[of 0] scan_hh_mm_ss.simps[of 1] scan_hh_mm_ss.simps[of 2]
      scan_hh_mm_ss.simps[of "Suc 0"] scan_hh_mm_ss.simps[of "Suc (Suc 0)"]
      scan_hh_mm_ss.simps[of "Suc (Suc (Suc 0))"] parse_two_digits nth0_def Let_def)

lemma scan_offset_zero:
  "scan_hh_mm_ss 0 0 True [0, 0, 0] ''00:00'' 5 = Whole [0, 0, 0] False"
  by (simp add: scan_hh_mm_ss.simps[of 0] scan_hh_mm_ss.simps[of "Suc 0"] parse_digits_def
      parse_digits_from_unfold is_digit_def digit_val_def nth0_def Let_def)

lemma find_tzinfo_canonical:
  assumes "h1 < 10" "h0 < 10" "m1 < 10" "m0 < 10" "s1 < 10" "s0 < 10"
  shows "find_tzinfo
           (digit_char h1 # digit_char h0 # CHR '':'' # digit_char m1 # digit_char m0 # CHR '':'' #
            digit_char s1 # digit_char s0 # ''+00:00'') 14 0 = 8"
  using assms
  by (simp add: find_tzinfo.simps[of _ _ 0] find_tzinfo.simps[of _ _ "Suc 0"]
      find_tzinfo.simps[of _ _ "Suc (Suc 0)"] find_tzinfo.simps[of _ _ "Suc (Suc (Suc 0))"]
      find_tzinfo.simps[of _ _ "Suc (Suc (Suc (Suc 0)))"]
      find_tzinfo.simps[of _ _ "Suc (Suc (Suc (Suc (Suc 0))))"]
      find_tzinfo.simps[of _ _ "Suc (Suc (Suc (Suc (Suc (Suc 0)))))"]
      find_tzinfo.simps[of _ _ "Suc (Suc (Suc (Suc (Suc (Suc (Suc 0))))))"]
      find_tzinfo.simps[of _ _ "Suc (Suc (Suc (Suc (Suc (Suc (Suc (Suc 0)))))))"]
      nth0_def digit_char_props)

lemma parse_time_canonical:
  assumes "h1 < 10" "h0 < 10" "m1 < 10" "m0 < 10" "s1 < 10" "s0 < 10"
  shows "parse_isoformat_time
           (digit_char h1 # digit_char h0 # CHR '':'' # digit_char m1 # digit_char m0 # CHR '':'' #
            digit_char s1 # digit_char s0 # ''+00:00'') 14
         = Some (10 * h1 + h0, 10 * m1 + m0, 10 * s1 + s0, 0, Some (0, 0))"
  using assms
  by (simp add: parse_isoformat_time_def find_tzinfo_canonical parse_hh_mm_ss_ff_def
      scan_canonical scan_offset_zero nth0_def)


lemma fromisoformat_canonical:
  assumes "y3 < 10" "y2 < 10" "y1 < 10" "y0 < 10" "m1 < 10" "m0 < 10" "d1 < 10" "d0 < 10"
    and "h1 < 10" "h0 < 10" "mi1 < 10" "mi0 < 10" "s1 < 10" "s0 < 10"
    and "(of_char sep :: nat) < 128"
  shows "fromisoformat
           (digit_char y3 # digit_char y2 # digit_char y1 # digit_char y0 # CHR ''-'' #
            digit_char m1 # digit_char m0 # CHR ''-'' # digit_char d1 # digit_char d0 # sep #
            digit_char h1 # digit_char h0 # CHR '':'' # digit_char mi1 # digit_char mi0 # CHR '':'' #
            digit_char s1 # digit_char s0 # ''+00:00'')
         = new_datetime (int (1000 * y3 + 100 * y2 + 10 * y1 + y0)) (int (10 * m1 + m0))
             (int (10 * d1 + d0)) (int (10 * h1 + h0)) (int (10 * mi1 + mi0)) (int (10 * s1 + s0))
             0 (Some 0)"
proof -
  let ?s = "digit_char y3 # digit_char y2 # digit_char y1 # digit_char y0 # CHR ''-'' #
            digit_char m1 # digit_char m0 # CHR ''-'' # digit_char d1 # digit_char d0 # sep #
            digit_char h1 # digit_char h0 # CHR '':'' # digit_char mi1 # digit_char mi0 # CHR '':'' #
            digit_char s1 # digit_char s0 # ''+00:00''"
  have u: "utf8 ?s = ?s"
    using assms by (intro utf8_ascii) (simp add: digit_char_props)
  have sep: "find_isoformat_datetime_separator ?s = Some 10"
    using assms by (simp add: find_isoformat_datetime_separator_def nth0_def digit_char_props)
  have date: "parse_isoformat_date ?s 10
         = Some (int (1000 * y3 + 100 * y2 + 10 * y1 + y0), int (10 * m1 + m0), int (10 * d1 + d0))"
    using assms by (intro parse_date_canonical)
  note time = parse_time_canonical[OF assms(9-14)]
  have n10: "nth0 ?s 10 = sep" by (simp add: nth0_def)
  have len: "length ?s = 25" by simp
  show ?thesis
    unfolding fromisoformat_def u Let_def len sep
    using assms(15) by (simp add: date n10 time tzinfo_from_isoformat_results_def)
qed

lemma fromisoformat_no_year:
  assumes "parse_digits 4 (utf8 s) = None"
  shows "fromisoformat s = None"
  using assms
  by (cases "find_isoformat_datetime_separator (utf8 s)")
     (simp_all add: fromisoformat_def Let_def parse_isoformat_date_def)

lemma days_in_month_le: "1 \<le> m \<Longrightarrow> m \<le> 12 \<Longrightarrow> days_in_month y m \<le> 31"
proof -
  assume "1 \<le> m" "m \<le> 12"
  then have "m = 1 \<or> m = 2 \<or> m = 3 \<or> m = 4 \<or> m = 5 \<or> m = 6 \<or> m = 7 \<or> m = 8
      \<or> m = 9 \<or> m = 10 \<or> m = 11 \<or> m = 12" by arith
  then show ?thesis by (auto simp: days_in_month_def DAYS_IN_MONTH_def)
qed

lemma new_datetime_eq:
  "new_datetime y m d hh mm ss us tz =
     (if valid_datetime \<lparr>year = y, month = m, day = d, hour = hh, minute = mm, second = ss,
            microsecond = us, utcoffset = tz\<rparr>
      then Some \<lparr>year = y, month = m, day = d, hour = hh, minute = mm, second = ss,
            microsecond = us, utcoffset = tz\<rparr>
      else None)"
  by (simp add: new_datetime_def valid_datetime_def)

lemma new_datetime_Some:
  assumes "new_datetime y m d hh mm ss us tz = Some dt"
  shows "dt = \<lparr>year = y, month = m, day = d, hour = hh, minute = mm, second = ss,
            microsecond = us, utcoffset = tz\<rparr>" and "valid_datetime dt"
proof -
  from assms have v: "valid_datetime \<lparr>year = y, month = m, day = d, hour = hh, minute = mm, second = ss,
            microsecond = us, utcoffset = tz\<rparr>"
    by (simp add: new_datetime_eq split: if_splits)
  with assms show "dt = \<lparr>year = y, month = m, day = d, hour = hh, minute = mm, second = ss,
            microsecond = us, utcoffset = tz\<rparr>"
    by (simp add: new_datetime_eq)
  with v show "valid_datetime dt" by simp
qed


lemma fromisoformat_valid:
  assumes "fromisoformat s = Some dt"
  shows "valid_datetime dt"
proof -
  from assms obtain y m d hh mm ss us tz where "new_datetime y m d hh mm ss us tz = Some dt"
    unfolding fromisoformat_def Let_def
    by (auto simp: bind_eq_Some_conv split: if_splits)
  then show ?thesis by (rule new_datetime_Some(2))
qed

lemma minus_offset_valid:
  assumes "minus_offset dt off = Some u"
  shows "valid_datetime u" and "utcoffset u = Some 0"
proof -
  from assms obtain y m d hh mm ss us where n: "new_datetime y m d hh mm ss us (Some 0) = Some u"
    unfolding minus_offset_def Let_def
    by (auto split: if_splits prod.splits)
  from n show "valid_datetime u" by (rule new_datetime_Some(2))
  from new_datetime_Some(1)[OF n] show "utcoffset u = Some 0" by simp
qed

lemma astimezone_utc_valid:
  assumes "valid_datetime dt" and "astimezone_utc l dt = Some u"
  shows "valid_datetime u"
  using assms
  by (auto simp: astimezone_utc_def minus_offset_valid(1) split: option.splits if_splits)

lemma py_replace_simps:
  "py_replace c r [] = []"
  "py_replace c r (x # xs) = (if x = c then r else [x]) @ py_replace c r xs"
  "py_replace c r (xs @ ys) = py_replace c r xs @ py_replace c r ys"
  by (simp_all add: py_replace_def)

lemma py_replace_digits:
  assumes "\<forall>x \<in> set s. x \<noteq> c"
  shows "py_replace c r s = s"
  using assms by (induction s) (simp_all add: py_replace_simps)

lemma show_nat_digits: "\<forall>x \<in> set (show_nat n). x \<in> set ''0123456789''"
proof (induction n rule: show_nat.induct)
  case (1 n)
  show ?case
  proof (cases "n < 10")
    case True
    then show ?thesis using digit_char_cases[of n] by (simp add: show_nat_1)
  next
    case False
    have "n mod 10 < 10" by simp
    from digit_char_cases[OF this] 1[OF False] False show ?thesis
      by (subst show_nat.simps) auto
  qed
qed


lemma parse_digits_dash:
  "parse_digits 4 (a # CHR ''-'' # rest) = None"
  "parse_digits 4 (a # b # CHR ''-'' # rest) = None"
  "parse_digits 4 (a # b # c # CHR ''-'' # rest) = None"
  by (simp_all add: parse_digits_def parse_digits_from_unfold is_digit_def)

lemma digits_of_hundred:
  fixes n :: int
  assumes "0 \<le> n" and "n < 100"
  shows "nat n div 10 < 10" and "nat n mod 10 < 10"
    and "int (10 * (nat n div 10) + nat n mod 10) = n"
  using assms by auto

lemma digits_of_year:
  fixes n :: nat
  assumes "n < 10000"
  shows "n div 1000 < 10" and "n div 100 mod 10 < 10" and "n div 10 mod 10 < 10" and "n mod 10 < 10"
    and "1000 * (n div 1000) + 100 * (n div 100 mod 10) + 10 * (n div 10 mod 10) + n mod 10 = n"
proof -
  from assms show "n div 1000 < 10" by (simp add: less_mult_imp_div_less)
  show "n div 100 mod 10 < 10" and "n div 10 mod 10 < 10" and "n mod 10 < 10" by simp_all
  have a: "n mod 1000 = 100 * (n div 100 mod 10) + n mod 100"
    using mod_mult2_eq[of n 100 10] by simp
  have b: "n mod 100 = 10 * (n div 10 mod 10) + n mod 10"
    using mod_mult2_eq[of n 10 10] by simp
  have c: "n = 1000 * (n div 1000) + n mod 1000" by simp
  from a b c show "1000 * (n div 1000) + 100 * (n div 100 mod 10) + 10 * (n div 10 mod 10) + n mod 10 = n"
    by linarith
qed


lemma to_iso8601_str:
  "s \<noteq> [] \<Longrightarrow> to_iso8601 proc (JStr s) =
     (case fromisoformat (py_replace (CHR ''Z'') ''+00:00'' s) of
        None \<Rightarrow> JStr s
      | Some dt \<Rightarrow>
          (case astimezone_utc (local_utcoffset proc) dt of
             None \<Rightarrow> JStr s
           | Some utc \<Rightarrow> JStr (strftime utc)))"
  by (simp add: to_iso8601_def)

text \<open>The text written for an object in UTC, with the colon form of the zero offset for \<^verbatim>\<open>Z\<close>.\<close>

lemma strftime_replaced:
  assumes "valid_datetime u"
  shows "py_replace (CHR ''Z'') ''+00:00'' (strftime u) =
     show_nat (nat (year u)) @
       CHR ''-'' # digit_char (nat (month u) div 10) # digit_char (nat (month u) mod 10) #
       CHR ''-'' # digit_char (nat (day u) div 10) # digit_char (nat (day u) mod 10) #
       CHR '' '' # digit_char (nat (hour u) div 10) # digit_char (nat (hour u) mod 10) #
       CHR '':'' # digit_char (nat (minute u) div 10) # digit_char (nat (minute u) mod 10) #
       CHR '':'' # digit_char (nat (second u) div 10) # digit_char (nat (second u) mod 10) #
       ''+00:00''"
proof -
  from assms have d31: "day u \<le> 31"
    using days_in_month_le[of "month u" "year u"] by (simp add: valid_datetime_def)
  have "\<forall>x \<in> set (show_nat (nat (year u))). x \<noteq> CHR ''Z''"
  proof
    fix x
    assume "x \<in> set (show_nat (nat (year u)))"
    with show_nat_digits[of "nat (year u)"] have "x \<in> set ''0123456789''" by blast
    then show "x \<noteq> CHR ''Z''" by auto
  qed
  then have y: "py_replace (CHR ''Z'') ''+00:00'' (show_nat (nat (year u))) = show_nat (nat (year u))"
    by (rule py_replace_digits)
  have nz: "digit_char n \<noteq> CHR ''Z''" if "n < 10" for n
    using that by (rule digit_char_props)
  from assms d31 show ?thesis
    by (simp add: strftime_def two_digits_eq valid_datetime_def py_replace_simps y nz
        digits_of_hundred)
qed

lemma strftime_fixed:
  assumes v: "valid_datetime u"
  shows "to_iso8601 proc (JStr (strftime u)) = JStr (strftime u)"
proof -
  let ?n = "nat (year u)"
  let ?tail = "CHR ''-'' # digit_char (nat (month u) div 10) # digit_char (nat (month u) mod 10) #
       CHR ''-'' # digit_char (nat (day u) div 10) # digit_char (nat (day u) mod 10) #
       CHR '' '' # digit_char (nat (hour u) div 10) # digit_char (nat (hour u) mod 10) #
       CHR '':'' # digit_char (nat (minute u) div 10) # digit_char (nat (minute u) mod 10) #
       CHR '':'' # digit_char (nat (second u) div 10) # digit_char (nat (second u) mod 10) #
       ''+00:00''"
  have ne: "strftime u \<noteq> []" by (simp add: strftime_def)
  from v have d31: "day u \<le> 31"
    using days_in_month_le[of "month u" "year u"] by (simp add: valid_datetime_def)
  from v d31 have r: "0 \<le> month u" "month u < 100" "0 \<le> day u" "day u < 100"
    "0 \<le> hour u" "hour u < 100" "0 \<le> minute u" "minute u < 100" "0 \<le> second u" "second u < 100"
    by (simp_all add: valid_datetime_def)
  note dm = digits_of_hundred[OF r(1,2)] and dd = digits_of_hundred[OF r(3,4)]
    and dh = digits_of_hundred[OF r(5,6)] and dmi = digits_of_hundred[OF r(7,8)]
    and ds = digits_of_hundred[OF r(9,10)]
  have tail_ascii: "\<forall>c \<in> set ?tail. (of_char c :: nat) < 128"
    using dm(1,2) dd(1,2) dh(1,2) dmi(1,2) ds(1,2) by (simp add: digit_char_props)
  from v have yr: "1 \<le> ?n" "?n < 10000" by (auto simp: valid_datetime_def)
  have parse: "fromisoformat (show_nat ?n @ ?tail) = None \<or>
      fromisoformat (show_nat ?n @ ?tail) =
        Some \<lparr>year = year u, month = month u, day = day u, hour = hour u,
              minute = minute u, second = second u, microsecond = 0, utcoffset = Some 0\<rparr>"
  proof (cases "?n < 1000")
    case True
    then consider "?n < 10" | "10 \<le> ?n" "?n < 100" | "100 \<le> ?n" "?n < 1000" by linarith
    then have "parse_digits 4 (show_nat ?n @ ?tail) = None"
    proof cases
      case 1
      then show ?thesis by (simp add: show_nat_1 parse_digits_dash)
    next
      case 2
      then show ?thesis by (simp add: show_nat_2 parse_digits_dash)
    next
      case 3
      then show ?thesis by (simp add: show_nat_3 parse_digits_dash)
    qed
    moreover have "utf8 (show_nat ?n @ ?tail) = show_nat ?n @ ?tail"
    proof (rule utf8_ascii)
      have "\<forall>c \<in> set (show_nat ?n). (of_char c :: nat) < 128"
      proof
        fix c assume "c \<in> set (show_nat ?n)"
        with show_nat_digits[of ?n] have "c \<in> set ''0123456789''" by blast
        then show "(of_char c :: nat) < 128" by auto
      qed
      with tail_ascii show "\<forall>c \<in> set (show_nat ?n @ ?tail). (of_char c :: nat) < 128"
        by (simp only: set_append ball_Un simp_thms)
    qed
    ultimately have "fromisoformat (show_nat ?n @ ?tail) = None"
      by (intro fromisoformat_no_year) simp
    then show ?thesis by blast
  next
    case False
    with yr have big: "1000 \<le> ?n" "?n < 10000" by simp_all
    note dy = digits_of_year[OF yr(2)]
    have sp: "(of_char (CHR '' '') :: nat) < 128" by simp
    have "fromisoformat (show_nat ?n @ ?tail) =
        new_datetime (int (1000 * (?n div 1000) + 100 * (?n div 100 mod 10) + 10 * (?n div 10 mod 10) + ?n mod 10))
          (int (10 * (nat (month u) div 10) + nat (month u) mod 10))
          (int (10 * (nat (day u) div 10) + nat (day u) mod 10))
          (int (10 * (nat (hour u) div 10) + nat (hour u) mod 10))
          (int (10 * (nat (minute u) div 10) + nat (minute u) mod 10))
          (int (10 * (nat (second u) div 10) + nat (second u) mod 10)) 0 (Some 0)"
      unfolding show_nat_4[OF big] append_Cons append_Nil
      by (rule fromisoformat_canonical[OF dy(1-4) dm(1,2) dd(1,2) dh(1,2) dmi(1,2) ds(1,2) sp])
    also have "\<dots> = new_datetime (year u) (month u) (day u) (hour u) (minute u) (second u) 0 (Some 0)"
      using v by (simp only: dy(5) dm(3) dd(3) dh(3) dmi(3) ds(3)) (simp add: valid_datetime_def)
    also have "\<dots> = Some \<lparr>year = year u, month = month u, day = day u, hour = hour u,
              minute = minute u, second = second u, microsecond = 0, utcoffset = Some 0\<rparr>"
      using v by (simp add: new_datetime_eq valid_datetime_def)
    finally show ?thesis by blast
  qed
  let ?u' = "\<lparr>year = year u, month = month u, day = day u, hour = hour u,
              minute = minute u, second = second u, microsecond = 0, utcoffset = Some 0\<rparr>"
  have a: "astimezone_utc (local_utcoffset proc) ?u' = Some ?u'"
    by (simp add: astimezone_utc_def)
  have s: "strftime ?u' = strftime u" by (simp add: strftime_def)
  from parse show ?thesis
    unfolding to_iso8601_str[OF ne] strftime_replaced[OF v]
    by (auto simp: a s)
qed


subsection \<open>Evaluating the normaliser\<close>

lemma to_iso8601_falsy: "\<not> truthy x \<Longrightarrow> to_iso8601 proc x = JStr ''-''"
  by (simp add: to_iso8601_def)

lemma fromisoformat_short: "length (utf8 s) < 7 \<Longrightarrow> fromisoformat s = None"
  by (simp add: fromisoformat_def Let_def)

lemma to_iso8601_placeholder: "to_iso8601 proc (JStr ''-'') = JStr ''-''"
proof -
  have "fromisoformat ''-'' = None" by (rule fromisoformat_short) (simp add: utf8_def)
  then show ?thesis by (simp add: to_iso8601_def py_replace_def)
qed

lemma to_iso8601_not_str:
  assumes "truthy x" and "\<And>s. x \<noteq> JStr s"
  shows "to_iso8601 proc x = x"
proof (cases x)
  case (JStr s)
  with assms(2) show ?thesis by blast
qed (use assms(1) in \<open>simp_all add: to_iso8601_def\<close>)

lemma fromisoformat_not_a_date: "fromisoformat ''not-a-date'' = None"
  by (rule fromisoformat_no_year) (simp add: utf8_def parse_digits_def parse_digits_from_unfold is_digit_def)

lemma to_iso8601_utc:
  assumes "fromisoformat (py_replace (CHR ''Z'') ''+00:00'' s) = Some dt" and "utcoffset dt = Some 0"
  shows "to_iso8601 proc (JStr s) = JStr (strftime dt)"
proof -
  have "s \<noteq> []"
  proof
    assume "s = []"
    then have "fromisoformat (py_replace (CHR ''Z'') ''+00:00'' s) = None"
      by (simp add: py_replace_def fromisoformat_def utf8_def)
    with assms(1) show False by simp
  qed
  with assms show ?thesis by (simp add: to_iso8601_str astimezone_utc_def)
qed

lemma to_iso8601_canonical:
  assumes d: "y3 < 10" "y2 < 10" "y1 < 10" "y0 < 10" "m1 < 10" "m0 < 10" "d1 < 10" "d0 < 10"
      "h1 < 10" "h0 < 10" "mi1 < 10" "mi0 < 10" "s1 < 10" "s0 < 10"
    and v: "valid_datetime
       \<lparr>year = int (1000 * y3 + 100 * y2 + 10 * y1 + y0), month = int (10 * m1 + m0),
        day = int (10 * d1 + d0), hour = int (10 * h1 + h0), minute = int (10 * mi1 + mi0),
        second = int (10 * s1 + s0), microsecond = 0, utcoffset = Some 0\<rparr>"
  shows "to_iso8601 proc
           (JStr (digit_char y3 # digit_char y2 # digit_char y1 # digit_char y0 # CHR ''-'' #
              digit_char m1 # digit_char m0 # CHR ''-'' # digit_char d1 # digit_char d0 # CHR ''T'' #
              digit_char h1 # digit_char h0 # CHR '':'' # digit_char mi1 # digit_char mi0 # CHR '':'' #
              digit_char s1 # digit_char s0 # ''Z''))
         = JStr (show_nat (1000 * y3 + 100 * y2 + 10 * y1 + y0) @ CHR ''-'' #
              digit_char m1 # digit_char m0 # CHR ''-'' # digit_char d1 # digit_char d0 # CHR '' '' #
              digit_char h1 # digit_char h0 # CHR '':'' # digit_char mi1 # digit_char mi0 # CHR '':'' #
              digit_char s1 # digit_char s0 # ''Z'')"
proof -
  let ?dt = "\<lparr>year = int (1000 * y3 + 100 * y2 + 10 * y1 + y0), month = int (10 * m1 + m0),
        day = int (10 * d1 + d0), hour = int (10 * h1 + h0), minute = int (10 * mi1 + mi0),
        second = int (10 * s1 + s0), microsecond = 0, utcoffset = Some 0\<rparr>"
  have nz: "digit_char n \<noteq> CHR ''Z''" if "n < 10" for n
    using that by (rule digit_char_props)
  have sp: "(of_char (CHR ''T'') :: nat) < 128" by simp
  have r: "py_replace (CHR ''Z'') ''+00:00''
           (digit_char y3 # digit_char y2 # digit_char y1 # digit_char y0 # CHR ''-'' #
              digit_char m1 # digit_char m0 # CHR ''-'' # digit_char d1 # digit_char d0 # CHR ''T'' #
              digit_char h1 # digit_char h0 # CHR '':'' # digit_char mi1 # digit_char mi0 # CHR '':'' #
              digit_char s1 # digit_char s0 # ''Z'')
         = digit_char y3 # digit_char y2 # digit_char y1 # digit_char y0 # CHR ''-'' #
              digit_char m1 # digit_char m0 # CHR ''-'' # digit_char d1 # digit_char d0 # CHR ''T'' #
              digit_char h1 # digit_char h0 # CHR '':'' # digit_char mi1 # digit_char mi0 # CHR '':'' #
              digit_char s1 # digit_char s0 # ''+00:00''"
    using d by (simp add: py_replace_simps nz)
  have p: "fromisoformat (py_replace (CHR ''Z'') ''+00:00''
           (digit_char y3 # digit_char y2 # digit_char y1 # digit_char y0 # CHR ''-'' #
              digit_char m1 # digit_char m0 # CHR ''-'' # digit_char d1 # digit_char d0 # CHR ''T'' #
              digit_char h1 # digit_char h0 # CHR '':'' # digit_char mi1 # digit_char mi0 # CHR '':'' #
              digit_char s1 # digit_char s0 # ''Z'')) = Some ?dt"
    unfolding r fromisoformat_canonical[OF d sp] using v by (simp add: new_datetime_eq)
  have a: "(10 * a + b) div 10 = a" "(10 * a + b) mod 10 = b" if "b < 10" for a b :: nat
    using that by simp_all
  from v have rng: "0 \<le> int (10 * m1 + m0)" "int (10 * m1 + m0) < 100"
     "0 \<le> int (10 * d1 + d0)" "int (10 * d1 + d0) < 100"
     "0 \<le> int (10 * h1 + h0)" "int (10 * h1 + h0) < 100"
     "0 \<le> int (10 * mi1 + mi0)" "int (10 * mi1 + mi0) < 100"
     "0 \<le> int (10 * s1 + s0)" "int (10 * s1 + s0) < 100"
    using d by simp_all
  have s: "strftime ?dt = show_nat (1000 * y3 + 100 * y2 + 10 * y1 + y0) @ CHR ''-'' #
              digit_char m1 # digit_char m0 # CHR ''-'' # digit_char d1 # digit_char d0 # CHR '' '' #
              digit_char h1 # digit_char h0 # CHR '':'' # digit_char mi1 # digit_char mi0 # CHR '':'' #
              digit_char s1 # digit_char s0 # ''Z''"
    unfolding strftime_def datetime.simps
      two_digits_eq[OF rng(1,2)] two_digits_eq[OF rng(3,4)] two_digits_eq[OF rng(5,6)]
      two_digits_eq[OF rng(7,8)] two_digits_eq[OF rng(9,10)] nat_int
      a(1)[OF d(6)] a(2)[OF d(6)] a(1)[OF d(8)] a(2)[OF d(8)] a(1)[OF d(10)] a(2)[OF d(10)]
      a(1)[OF d(12)] a(2)[OF d(12)] a(1)[OF d(14)] a(2)[OF d(14)]
    by simp
  have u: "utcoffset ?dt = Some 0" by simp
  show ?thesis
    unfolding to_iso8601_utc[OF p u] s by (rule refl)
qed

lemma digit_char_numerals:
  "digit_char 0 = CHR ''0''" "digit_char 1 = CHR ''1''" "digit_char 2 = CHR ''2''"
  "digit_char 3 = CHR ''3''" "digit_char 4 = CHR ''4''" "digit_char 5 = CHR ''5''"
  "digit_char 6 = CHR ''6''" "digit_char 7 = CHR ''7''" "digit_char 8 = CHR ''8''"
  "digit_char 9 = CHR ''9''" "digit_char (Suc 0) = CHR ''1''"
  by (simp_all add: digit_char_def)

lemma to_iso8601_example:
  "to_iso8601 proc (JStr ''2024-01-01T12:34:56Z'') = JStr ''2024-01-01 12:34:56Z''"
proof -
  have v: "valid_datetime
       \<lparr>year = int (1000 * 2 + 100 * 0 + 10 * 2 + 4), month = int (10 * 0 + 1),
        day = int (10 * 0 + 1), hour = int (10 * 1 + 2), minute = int (10 * 3 + 4),
        second = int (10 * 5 + 6), microsecond = 0, utcoffset = Some 0\<rparr>"
    by (simp add: valid_datetime_def days_in_month_def DAYS_IN_MONTH_def)
  have y: "show_nat 2024 = ''2024''"
    using show_nat_4[of 2024] by (simp add: digit_char_numerals)
  from to_iso8601_canonical[of 2 0 2 4 0 1 0 1 1 2 3 4 5 6 proc, OF _ _ _ _ _ _ _ _ _ _ _ _ _ _ v]
  show ?thesis by (simp add: digit_char_numerals y)
qed

section \<open>The timestamp normaliser\<close>

text \<open>
  Claim C10. \<^verbatim>\<open>to_iso8601\<close> is idempotent on every input, in every process (whatever its
  environment and its local time zone): normalising a normalised value changes nothing. The
  placeholder \<^verbatim>\<open>"-"\<close> is too short to parse, a value that is returned because it does not
  parse or does not convert is returned again, and the text written for a converted
  timestamp either does not parse (a year below 1000 is written without leading zeros) or
  parses to the same fields in UTC.
\<close>

theorem to_iso8601_idempotent:
  "to_iso8601 proc (to_iso8601 proc x) = to_iso8601 proc x"
proof (cases "truthy x")
  case False
  then show ?thesis by (simp add: to_iso8601_falsy to_iso8601_placeholder)
next
  case t: True
  show ?thesis
  proof (cases "\<exists>s. x = JStr s")
    case False
    then have "to_iso8601 proc x = x" using t by (intro to_iso8601_not_str) auto
    then show ?thesis by simp
  next
    case True
    then obtain s where x: "x = JStr s" by blast
    with t have ne: "s \<noteq> []" by simp
    show ?thesis
    proof (cases "fromisoformat (py_replace (CHR ''Z'') ''+00:00'' s)")
      case None
      then have "to_iso8601 proc x = x" by (simp add: x to_iso8601_str[OF ne])
      then show ?thesis by simp
    next
      case (Some dt)
      show ?thesis
      proof (cases "astimezone_utc (local_utcoffset proc) dt")
        case None
        with Some have "to_iso8601 proc x = x" by (simp add: x to_iso8601_str[OF ne])
        then show ?thesis by simp
      next
        case (Some u)
        from \<open>fromisoformat (py_replace (CHR ''Z'') ''+00:00'' s) = Some dt\<close>
        have "valid_datetime dt" by (rule fromisoformat_valid)
        then have "valid_datetime u" using Some by (rule astimezone_utc_valid)
        then have f: "to_iso8601 proc (JStr (strftime u)) = JStr (strftime u)" by (rule strftime_fixed)
        from Some \<open>fromisoformat (py_replace (CHR ''Z'') ''+00:00'' s) = Some dt\<close>
        have "to_iso8601 proc x = JStr (strftime u)" by (simp add: x to_iso8601_str[OF ne])
        with f show ?thesis by simp
      qed
    qed
  qed
qed

text \<open>
  The theorem at three inputs of the process whose local time is UTC: the timestamp of the
  specification, an unparseable string and an absent value.
\<close>

theorem to_iso8601_idempotent_witness:
  "to_iso8601 utc_process (to_iso8601 utc_process (JStr ''2024-01-01T12:34:56Z''))
     = JStr ''2024-01-01 12:34:56Z''
   \<and> to_iso8601 utc_process (to_iso8601 utc_process (JStr ''not-a-date'')) = JStr ''not-a-date''
   \<and> to_iso8601 utc_process (to_iso8601 utc_process JNull) = JStr ''-''"
  using to_iso8601_idempotent[of utc_process "JStr ''2024-01-01T12:34:56Z''"]
    to_iso8601_idempotent[of utc_process "JStr ''not-a-date''"]
    to_iso8601_idempotent[of utc_process JNull]
  by (simp add: to_iso8601_example to_iso8601_falsy to_iso8601_str fromisoformat_not_a_date py_replace_def)

end
